theory Spec2Isabelle
  imports Complex_Main "HOL-Library.Word"
begin

section \<open>Conventions of the embedding\<close>

text \<open>
  The program is the Python package \<^verbatim>\<open>ml/\<close> of KrishiRaksha: the helpers of
  \<^verbatim>\<open>api/utils.py\<close> and the four inference classes (\<^verbatim>\<open>ImageVerifier\<close>,
  \<^verbatim>\<open>YieldPredictor\<close>, \<^verbatim>\<open>FraudDetector\<close>, \<^verbatim>\<open>ClaimEvaluator\<close>).

  \<^item> A Python \<^verbatim>\<open>float\<close> is modelled by a \<open>real\<close>: arithmetic is exact, and the IEEE
    values \<^verbatim>\<open>inf\<close> and \<^verbatim>\<open>nan\<close> do not occur. Every comparison against a constant that a
    theorem below depends on is between numbers that binary floating point represents or
    orders in the same way.
  \<^item> A Python \<^verbatim>\<open>str\<close> is a \<open>string\<close> whose characters are the code points below 256.
  \<^item> An exception is a value \<open>Inl e\<close> of a sum type; a method that mutates \<^verbatim>\<open>self\<close> takes
    the mutated attribute and returns its new value.
  \<^item> A leading underscore of a Python name is dropped; a method whose name occurs in
    several classes is prefixed by its class (\<open>fraud_\<close>, \<open>yield_\<close>, \<open>evaluator_\<close>).
\<close>

datatype py_error =
    ValueError string
  | TypeError
  | FileNotFoundError string
  | ZeroDivisionError
  | IndexError
  | CollaboratorError string

subsection \<open>Built-ins on strings\<close>

definition py_isspace :: "char \<Rightarrow> bool" where
  "py_isspace c =
     (let n = (of_char c :: nat)
      in (9 \<le> n \<and> n \<le> 13) \<or> (28 \<le> n \<and> n \<le> 32) \<or> n = 133 \<or> n = 160)"

definition py_lower_char :: "char \<Rightarrow> char" where
  "py_lower_char c =
     (let n = (of_char c :: nat)
      in if (65 \<le> n \<and> n \<le> 90) \<or> (192 \<le> n \<and> n \<le> 222 \<and> n \<noteq> 215)
         then char_of (n + 32) else c)"

definition lower :: "string \<Rightarrow> string" where
  "lower s = map py_lower_char s"

definition strip :: "string \<Rightarrow> string" where
  "strip s = rev (dropWhile py_isspace (rev (dropWhile py_isspace s)))"

text \<open>\<^verbatim>\<open>s.split()\<close>: the maximal runs of non-whitespace characters, in order.\<close>

fun split_acc :: "string \<Rightarrow> string \<Rightarrow> string list" where
  "split_acc cur [] = (if cur = [] then [] else [rev cur])"
| "split_acc cur (c # cs) =
     (if py_isspace c
      then (if cur = [] then split_acc [] cs else rev cur # split_acc [] cs)
      else split_acc (c # cur) cs)"

definition split :: "string \<Rightarrow> string list" where
  "split s = split_acc [] s"

definition join :: "string \<Rightarrow> string list \<Rightarrow> string" where
  "join sep xs = (case xs of [] \<Rightarrow> [] | y # ys \<Rightarrow> y @ concat (map (\<lambda>z. sep @ z) ys))"

subsection \<open>Rounding and number formatting\<close>

text \<open>Round to the nearest integer, ties to the even one (Python's \<^verbatim>\<open>round\<close> and
  \<^verbatim>\<open>format\<close> on the exact value).\<close>

definition round_half_even :: "real \<Rightarrow> int" where
  "round_half_even x =
     (let f = \<lfloor>x\<rfloor>; d = x - of_int f
      in if d < 1 / 2 then f else if d > 1 / 2 then f + 1
         else if even f then f else f + 1)"

text \<open>\<^verbatim>\<open>round(x, 2)\<close>\<close>

definition round2 :: "real \<Rightarrow> real" where
  "round2 x = of_int (round_half_even (x * 100)) / 100"

definition digit_char :: "nat \<Rightarrow> char" where
  "digit_char d = char_of (48 + d)"

fun show_nat :: "nat \<Rightarrow> string" where
  "show_nat n = (if n < 10 then [digit_char n] else show_nat (n div 10) @ [digit_char (n mod 10)])"

declare show_nat.simps [simp del]

text \<open>\<^verbatim>\<open>f"{x:.1f}"\<close>\<close>

definition fmt_1f :: "real \<Rightarrow> string" where
  "fmt_1f x =
     (let t = nat (round_half_even (\<bar>x\<bar> * 10))
      in (if x < 0 then ''-'' else '''') @ show_nat (t div 10) @ ''.'' @ show_nat (t mod 10))"

section \<open>\<^verbatim>\<open>api/utils.py\<close>\<close>

text \<open>
  \<^verbatim>\<open>float(s)\<close> on a string is a built-in of the language, not code of the repository:
  the functions below take it as the parameter \<open>float_of\<close>, which returns \<open>None\<close>
  where Python raises \<^verbatim>\<open>ValueError\<close>.
\<close>

definition parse_land_size :: "(string \<Rightarrow> real option) \<Rightarrow> string \<Rightarrow> py_error + (real \<times> string)" where
  "parse_land_size float_of land_size =
     (let parts = split (strip land_size);
          format_error = ValueError (''Invalid land size format: '' @ land_size
                           @ ''. Expected format: '' @ [CHR 0x27] @ ''5 acre'' @ [CHR 0x27])
      in if length parts < 2 then Inl format_error
         else (case float_of (parts ! 0) of
                 None \<Rightarrow> Inl format_error
               | Some value \<Rightarrow> Inr (value, lower (parts ! 1))))"

definition conversion_factors :: "(string \<times> real) list" where
  "conversion_factors =
     [(''acre'', 0.404686), (''hectare'', 1.0), (''hectares'', 1.0), (''bigha'', 0.1338),
      (''katha'', 0.0067), (''kanal'', 0.0506), (''marla'', 0.0025), (''guntha'', 0.0101),
      (''cent'', 0.0040), (''cents'', 0.0040)]"

text \<open>The second component is the list of warnings the call logs.\<close>

definition convert_to_hectares :: "real \<Rightarrow> string \<Rightarrow> real \<times> string list" where
  "convert_to_hectares value unit =
     (let unit_lower = lower unit
      in case map_of conversion_factors unit_lower of
           None \<Rightarrow> (value, [''Unknown unit '' @ [CHR 0x27] @ unit @ [CHR 0x27] @ '', assuming hectares''])
         | Some factor \<Rightarrow> (value * factor, []))"

text \<open>A value of a weather dictionary (\<^verbatim>\<open>Dict[str, Any]\<close>): a number, a string, or
  anything else, on which \<^verbatim>\<open>float\<close> raises \<^verbatim>\<open>TypeError\<close>. The message of the
  \<^verbatim>\<open>ValueError\<close> quotes the string, as Python does for a string without quotes or
  escapes of its own.\<close>

datatype py_value = PyNum real | PyStr string | PyOther

definition py_float :: "(string \<Rightarrow> real option) \<Rightarrow> py_value \<Rightarrow> py_error + real" where
  "py_float float_of v =
     (case v of
        PyNum r \<Rightarrow> Inr r
      | PyStr s \<Rightarrow> (case float_of s of
                     None \<Rightarrow> Inl (ValueError (''could not convert string to float: ''
                               @ [CHR 0x27] @ s @ [CHR 0x27]))
                   | Some r \<Rightarrow> Inr r)
      | PyOther \<Rightarrow> Inl TypeError)"

record weather =
  temperature :: real
  rainfall :: real
  humidity :: real
  wind_speed :: real
  sunshine_hours :: real

definition default_features :: weather where
  "default_features =
     \<lparr>temperature = 25.0, rainfall = 0.0, humidity = 60.0, wind_speed = 5.0,
      sunshine_hours = 8.0\<rparr>"

text \<open>\<^verbatim>\<open>float(weather_data.get(key, default_value))\<close>\<close>

definition get_float ::
  "(string \<Rightarrow> real option) \<Rightarrow> (string \<times> py_value) list \<Rightarrow> string \<Rightarrow> real \<Rightarrow> py_error + real" where
  "get_float float_of weather_data key default_value =
     (case map_of weather_data key of
        None \<Rightarrow> Inr default_value
      | Some v \<Rightarrow> py_float float_of v)"

text \<open>The dictionary is the list of its items; \<^verbatim>\<open>not weather_data\<close> holds for \<^verbatim>\<open>None\<close>
  and for the empty dictionary.\<close>

definition extract_weather_features ::
  "(string \<Rightarrow> real option) \<Rightarrow> (string \<times> py_value) list option \<Rightarrow> py_error + weather" where
  "extract_weather_features float_of weather_data =
     (case weather_data of
        None \<Rightarrow> Inr default_features
      | Some wd \<Rightarrow>
          if wd = [] then Inr default_features
          else
            (case get_float float_of wd ''temperature'' (temperature default_features) of
               Inl e \<Rightarrow> Inl e
             | Inr t \<Rightarrow>
            (case get_float float_of wd ''rainfall'' (rainfall default_features) of
               Inl e \<Rightarrow> Inl e
             | Inr r \<Rightarrow>
            (case get_float float_of wd ''humidity'' (humidity default_features) of
               Inl e \<Rightarrow> Inl e
             | Inr h \<Rightarrow>
            (case get_float float_of wd ''wind_speed'' (wind_speed default_features) of
               Inl e \<Rightarrow> Inl e
             | Inr w \<Rightarrow>
            (case get_float float_of wd ''sunshine_hours'' (sunshine_hours default_features) of
               Inl e \<Rightarrow> Inl e
             | Inr s \<Rightarrow>
                 Inr \<lparr>temperature = t, rainfall = r, humidity = h, wind_speed = w,
                      sunshine_hours = s\<rparr>))))))"

section \<open>\<^verbatim>\<open>inference/fraud_detection.py\<close>\<close>

definition crop_encoding :: "(string \<times> int) list" where
  "crop_encoding =
     [(''rice'', 0), (''wheat'', 1), (''cotton'', 2), (''sugarcane'', 3), (''maize'', 4)]"

definition fraud_encode_crop_type :: "string \<Rightarrow> int" where
  "fraud_encode_crop_type crop_type =
     (let crop_lower = strip (lower crop_type)
      in case map_of crop_encoding crop_lower of None \<Rightarrow> 0 | Some code \<Rightarrow> code)"

text \<open>\<^verbatim>\<open>except Exception\<close> around the two helpers: every error becomes one hectare.\<close>

definition fraud_parse_land_size :: "(string \<Rightarrow> real option) \<Rightarrow> string \<Rightarrow> real" where
  "fraud_parse_land_size float_of land_size =
     (case parse_land_size float_of land_size of
        Inl e \<Rightarrow> 1.0
      | Inr (value, unit) \<Rightarrow> fst (convert_to_hectares value unit))"

definition calculate_weather_anomaly_score :: "weather \<Rightarrow> real" where
  "calculate_weather_anomaly_score weather_features =
     (let anomaly_score = 0.0;
          temp = temperature weather_features;
          anomaly_score = (if temp < 20 \<or> temp > 35 then anomaly_score + 30 else anomaly_score);
          rain = rainfall weather_features;
          anomaly_score = (if rain < 50 \<or> rain > 150 then anomaly_score + 40 else anomaly_score);
          hum = humidity weather_features;
          anomaly_score = (if hum < 40 \<or> hum > 80 then anomaly_score + 30 else anomaly_score)
      in min 100.0 anomaly_score)"

text \<open>Python's \<^verbatim>\<open>/\<close> on floats raises on a zero divisor.\<close>

definition truediv :: "real \<Rightarrow> real \<Rightarrow> py_error + real" where
  "truediv a b = (if b = 0 then Inl ZeroDivisionError else Inr (a / b))"

text \<open>The row of the feature array, in the order of \<^verbatim>\<open>feature_names\<close>.\<close>

definition fraud_prepare_features ::
  "(string \<Rightarrow> real option) \<Rightarrow> string \<Rightarrow> string \<Rightarrow> real \<Rightarrow> real
     \<Rightarrow> (string \<times> py_value) list option \<Rightarrow> int \<Rightarrow> py_error + real list" where
  "fraud_prepare_features float_of crop_type land_size expected_yield claim_amount
       weather_features historical_claims =
     (let crop_encoded = fraud_encode_crop_type crop_type;
          land_size_hectares = fraud_parse_land_size float_of land_size
      in case extract_weather_features float_of weather_features of
           Inl e \<Rightarrow> Inl e
         | Inr weather \<Rightarrow>
         (case (if land_size_hectares > 0 then truediv expected_yield land_size_hectares
                else Inr 0) of
            Inl e \<Rightarrow> Inl e
          | Inr yield_per_hectare \<Rightarrow>
         (case (if land_size_hectares > 0 then truediv claim_amount land_size_hectares
                else Inr 0) of
            Inl e \<Rightarrow> Inl e
          | Inr claim_per_hectare \<Rightarrow>
         (case (if expected_yield > 0 then truediv claim_amount expected_yield else Inr 0) of
            Inl e \<Rightarrow> Inl e
          | Inr claim_to_yield_ratio \<Rightarrow>
              let weather_anomaly_score = calculate_weather_anomaly_score weather
              in Inr [of_int crop_encoded, land_size_hectares, expected_yield, claim_amount,
                      yield_per_hectare, claim_per_hectare, claim_to_yield_ratio,
                      of_int historical_claims, temperature weather, rainfall weather,
                      humidity weather, weather_anomaly_score]))))"

definition identify_anomaly_features ::
  "real list \<Rightarrow> bool \<Rightarrow> string \<Rightarrow> real \<Rightarrow> real \<Rightarrow> py_error + string list" where
  "identify_anomaly_features features fraud_detected crop_type expected_yield claim_amount =
     (if \<not> fraud_detected then Inr []
      else if length features < 12 then Inl IndexError
      else
        let claim_to_yield_ratio = features ! 6;
            yield_per_hectare = features ! 4;
            claim_per_hectare = features ! 5;
            historical_claims = features ! 7;
            weather_anomaly = features ! 11;
            anomaly_features =
              (if claim_to_yield_ratio > 1000
               then [''Unusually high claim amount relative to expected yield''] else [])
              @ (if yield_per_hectare < 10 then [''Suspiciously low yield per hectare'']
                 else if yield_per_hectare > 100 then [''Unusually high yield per hectare'']
                 else [])
              @ (if claim_per_hectare > 50000
                 then [''Extremely high claim amount per hectare''] else [])
              @ (if historical_claims > 5 then [''High number of historical claims''] else [])
              @ (if weather_anomaly > 50 then [''Unusual weather conditions reported''] else [])
        in Inr (if anomaly_features = [] then [''Multiple factors indicate potential fraud'']
                else anomaly_features))"

text \<open>
  The fitted objects the detector holds: the scaler (\<open>None\<close> when it has no \<^verbatim>\<open>mean_\<close>,
  that is, was never fitted) and the two methods of the outlier model.
\<close>

record fraud_model =
  fm_scaler :: "(real list \<Rightarrow> py_error + real list) option"
  fm_predict :: "real list \<Rightarrow> py_error + int"
  fm_score_samples :: "real list \<Rightarrow> py_error + real"

record fraud_result =
  fr_fraud_detected :: bool
  fr_fraud_score :: real
  fr_anomaly_features :: "string list"
  fr_confidence :: real

definition detect ::
  "fraud_model \<Rightarrow> (string \<Rightarrow> real option) \<Rightarrow> string \<Rightarrow> string \<Rightarrow> real \<Rightarrow> real
     \<Rightarrow> (string \<times> py_value) list option \<Rightarrow> int \<Rightarrow> string option
     \<Rightarrow> py_error + fraud_result" where
  "detect model float_of crop_type land_size expected_yield claim_amount weather_features
       historical_claims user_id =
     (case fraud_prepare_features float_of crop_type land_size expected_yield claim_amount
             weather_features historical_claims of
        Inl e \<Rightarrow> Inl e
      | Inr features \<Rightarrow>
     (case (case fm_scaler model of
              Some transform \<Rightarrow> transform features
            | None \<Rightarrow> Inr features) of
        Inl e \<Rightarrow> Inl e
      | Inr features_scaled \<Rightarrow>
     (case fm_predict model features_scaled of
        Inl e \<Rightarrow> Inl e
      | Inr prediction \<Rightarrow>
     (case fm_score_samples model features_scaled of
        Inl e \<Rightarrow> Inl e
      | Inr anomaly_score \<Rightarrow>
          let fraud_detected = (prediction = - 1);
              fraud_score = max 0.0 (min 100.0 ((1.0 - (anomaly_score + 1) / 2) * 100))
          in case identify_anomaly_features features fraud_detected crop_type expected_yield
                    claim_amount of
               Inl e \<Rightarrow> Inl e
             | Inr anomaly_features \<Rightarrow>
                 let confidence = \<bar>anomaly_score\<bar> * 50;
                     confidence = max 50.0 (min 100.0 confidence)
                 in Inr \<lparr>fr_fraud_detected = fraud_detected,
                          fr_fraud_score = round2 fraud_score,
                          fr_anomaly_features = anomaly_features,
                          fr_confidence = round2 confidence\<rparr>))))"

section \<open>\<^verbatim>\<open>inference/yield_prediction.py\<close>\<close>

definition yield_encode_crop_type :: "string \<Rightarrow> int" where
  "yield_encode_crop_type crop_type =
     (let crop_lower = strip (lower crop_type)
      in case map_of crop_encoding crop_lower of None \<Rightarrow> 0 | Some code \<Rightarrow> code)"

definition soil_encoding :: "(string \<times> int) list" where
  "soil_encoding =
     [(''alluvial'', 0), (''black'', 1), (''red'', 2), (''laterite'', 3), (''desert'', 4)]"

definition encode_soil_type :: "string \<Rightarrow> int" where
  "encode_soil_type soil_type =
     (let soil_lower = strip (lower soil_type)
      in case map_of soil_encoding soil_lower of None \<Rightarrow> 0 | Some code \<Rightarrow> code)"

definition irrigation_encoding :: "(string \<times> int) list" where
  "irrigation_encoding = [(''drip'', 0), (''sprinkler'', 1), (''flood'', 2), (''rainfed'', 3)]"

definition encode_irrigation_type :: "string \<Rightarrow> int" where
  "encode_irrigation_type irrigation_type =
     (let irrigation_lower = strip (lower irrigation_type)
      in case map_of irrigation_encoding irrigation_lower of None \<Rightarrow> 0 | Some code \<Rightarrow> code)"

definition yield_parse_land_size :: "(string \<Rightarrow> real option) \<Rightarrow> string \<Rightarrow> real" where
  "yield_parse_land_size float_of land_size =
     (case parse_land_size float_of land_size of
        Inl e \<Rightarrow> 1.0
      | Inr (value, unit) \<Rightarrow> fst (convert_to_hectares value unit))"

subsection \<open>Dates: \<^verbatim>\<open>datetime.strptime(s, '%Y-%m-%d')\<close>\<close>

record date =
  year :: nat
  month :: nat
  day :: nat

definition is_digit :: "char \<Rightarrow> bool" where
  "is_digit c = (let n = (of_char c :: nat) in 48 \<le> n \<and> n \<le> 57)"

definition digit_val :: "char \<Rightarrow> nat" where
  "digit_val c = (of_char c :: nat) - 48"

definition in_range :: "char \<Rightarrow> char \<Rightarrow> char \<Rightarrow> bool" where
  "in_range lo hi c = ((of_char lo :: nat) \<le> of_char c \<and> (of_char c :: nat) \<le> of_char hi)"

text \<open>
  The library compiles the format to the regular expression
  \<^verbatim>\<open>(\d\d\d\d)-(1[0-2]|0[1-9]|[1-9])-(3[0-1]|[1-2]\d|0[1-9]|[1-9]| [1-9])\<close>.
  The two functions list, for the month and the day group, the alternatives that match
  at the head of the input, in the order in which the matcher tries them, each with the
  number it reads and the rest of the input.
\<close>

definition month_alternatives :: "string \<Rightarrow> (nat \<times> string) list" where
  "month_alternatives cs =
     (case cs of
        a # b # r \<Rightarrow>
          (if a = CHR ''1'' \<and> in_range CHR ''0'' CHR ''2'' b then [(10 + digit_val b, r)] else [])
          @ (if a = CHR ''0'' \<and> in_range CHR ''1'' CHR ''9'' b then [(digit_val b, r)] else [])
      | _ \<Rightarrow> [])
     @ (case cs of
          a # r \<Rightarrow> (if in_range CHR ''1'' CHR ''9'' a then [(digit_val a, r)] else [])
        | _ \<Rightarrow> [])"

definition day_alternatives :: "string \<Rightarrow> (nat \<times> string) list" where
  "day_alternatives cs =
     (case cs of
        a # b # r \<Rightarrow>
          (if a = CHR ''3'' \<and> in_range CHR ''0'' CHR ''1'' b then [(30 + digit_val b, r)] else [])
          @ (if in_range CHR ''1'' CHR ''2'' a \<and> is_digit b
             then [(10 * digit_val a + digit_val b, r)] else [])
          @ (if a = CHR ''0'' \<and> in_range CHR ''1'' CHR ''9'' b then [(digit_val b, r)] else [])
      | _ \<Rightarrow> [])
     @ (case cs of
          a # r \<Rightarrow> (if in_range CHR ''1'' CHR ''9'' a then [(digit_val a, r)] else [])
        | _ \<Rightarrow> [])
     @ (case cs of
          a # b # r \<Rightarrow>
            (if a = CHR '' '' \<and> in_range CHR ''1'' CHR ''9'' b then [(digit_val b, r)] else [])
        | _ \<Rightarrow> [])"

text \<open>The first way to match the whole expression: year, hyphen, a month alternative
  followed by a hyphen, a day alternative.\<close>

definition match_ymd :: "string \<Rightarrow> (nat \<times> nat \<times> nat \<times> string) option" where
  "match_ymd s =
     (case s of
        y1 # y2 # y3 # y4 # h # rest \<Rightarrow>
          if is_digit y1 \<and> is_digit y2 \<and> is_digit y3 \<and> is_digit y4 \<and> h = CHR ''-''
          then
            (case concat (map (\<lambda>(m, r).
                     case r of
                       h2 # r2 \<Rightarrow>
                         if h2 = CHR ''-''
                         then map (\<lambda>(d, r3). (m, d, r3)) (day_alternatives r2) else []
                     | [] \<Rightarrow> [])
                   (month_alternatives rest)) of
               [] \<Rightarrow> None
             | (m, d, r3) # _ \<Rightarrow>
                 Some (1000 * digit_val y1 + 100 * digit_val y2 + 10 * digit_val y3 + digit_val y4,
                       m, d, r3))
          else None
      | _ \<Rightarrow> None)"

definition is_leap :: "nat \<Rightarrow> bool" where
  "is_leap y = (y mod 4 = 0 \<and> (y mod 100 \<noteq> 0 \<or> y mod 400 = 0))"

definition days_in_month :: "nat \<Rightarrow> nat \<Rightarrow> nat" where
  "days_in_month y m =
     (if m = 2 then (if is_leap y then 29 else 28)
      else if m = 4 \<or> m = 6 \<or> m = 9 \<or> m = 11 then 30 else 31)"

text \<open>\<open>None\<close> is \<^verbatim>\<open>ValueError\<close>: no match, unconverted data after the match, year 0, or
  a day the month does not have.\<close>

definition strptime :: "string \<Rightarrow> date option" where
  "strptime s =
     (case match_ymd s of
        None \<Rightarrow> None
      | Some (y, m, d, r) \<Rightarrow>
          if r \<noteq> [] then None
          else if y < 1 then None
          else if d < 1 \<or> d > days_in_month y m then None
          else Some \<lparr>year = y, month = m, day = d\<rparr>)"

text \<open>\<^verbatim>\<open>date.toordinal()\<close>: day 1 is 1 January of year 1.\<close>

definition days_before_year :: "nat \<Rightarrow> nat" where
  "days_before_year y = (let p = y - 1 in p * 365 + p div 4 - p div 100 + p div 400)"

definition days_before_month :: "nat \<Rightarrow> nat \<Rightarrow> nat" where
  "days_before_month y m =
     [0, 31, 59, 90, 120, 151, 181, 212, 243, 273, 304, 334] ! (m - 1)
     + (if m > 2 \<and> is_leap y then 1 else 0)"

definition toordinal :: "date \<Rightarrow> nat" where
  "toordinal dt = days_before_year (year dt) + days_before_month (year dt) (month dt) + day dt"

text \<open>\<open>today\<close> is the calendar date of \<^verbatim>\<open>datetime.now()\<close>; the sowing date is a midnight,
  so the whole days of the difference are the difference of the ordinals.\<close>

definition calculate_days_since_sowing :: "date \<Rightarrow> string \<Rightarrow> int" where
  "calculate_days_since_sowing today sowing_date =
     (case strptime sowing_date of
        None \<Rightarrow> 90
      | Some sowing \<Rightarrow>
          let days = int (toordinal today) - int (toordinal sowing)
          in max 0 days)"

definition determine_season :: "string \<Rightarrow> int \<times> int" where
  "determine_season sowing_date =
     (case strptime sowing_date of
        None \<Rightarrow> (0, 0)
      | Some sowing \<Rightarrow>
          let m = month sowing;
              is_kharif = (6 \<le> m \<and> m \<le> 10);
              is_rabi = (m \<ge> 11 \<or> m \<le> 4)
          in (if is_kharif then 1 else 0, if is_rabi then 1 else 0))"

definition yield_prepare_features ::
  "(string \<Rightarrow> real option) \<Rightarrow> date \<Rightarrow> string \<Rightarrow> string \<Rightarrow> string \<Rightarrow> string \<Rightarrow> string
     \<Rightarrow> real \<Rightarrow> (string \<times> py_value) list option \<Rightarrow> py_error + real list" where
  "yield_prepare_features float_of today crop_type land_size sowing_date soil_type
       irrigation_type fertilizer_usage weather_features =
     (let crop_encoded = yield_encode_crop_type crop_type;
          soil_encoded = encode_soil_type soil_type;
          irrigation_encoded = encode_irrigation_type irrigation_type;
          land_size_hectares = yield_parse_land_size float_of land_size;
          days_since_sowing = calculate_days_since_sowing today sowing_date;
          (is_kharif, is_rabi) = determine_season sowing_date
      in case extract_weather_features float_of weather_features of
           Inl e \<Rightarrow> Inl e
         | Inr weather \<Rightarrow>
             let fertilizer_kg_per_hectare = fertilizer_usage / 0.4047
             in Inr [of_int crop_encoded, land_size_hectares, of_int days_since_sowing,
                     of_int soil_encoded, of_int irrigation_encoded, fertilizer_kg_per_hectare,
                     temperature weather, rainfall weather, humidity weather,
                     wind_speed weather, sunshine_hours weather,
                     of_int is_kharif, of_int is_rabi])"

text \<open>\<^verbatim>\<open>weather_features.get('rainfall', 0)\<close> on the raw dictionary, then a comparison
  with a number, which raises \<^verbatim>\<open>TypeError\<close> unless the value is a number.\<close>

definition raw_rainfall :: "(string \<times> py_value) list \<Rightarrow> py_error + real" where
  "raw_rainfall wd =
     (case map_of wd ''rainfall'' of
        None \<Rightarrow> Inr 0
      | Some (PyNum r) \<Rightarrow> Inr r
      | Some _ \<Rightarrow> Inl TypeError)"

definition determine_risk_level ::
  "real \<Rightarrow> real \<Rightarrow> (string \<times> py_value) list option \<Rightarrow> py_error + string" where
  "determine_risk_level predicted_yield fertilizer_usage weather_features =
     (let rest = (if fertilizer_usage < 30 then ''medium''
                  else if predicted_yield < 20 then ''high'' else ''low'')
      in case weather_features of
           None \<Rightarrow> Inr rest
         | Some wd \<Rightarrow>
             if wd = [] then Inr rest
             else (case raw_rainfall wd of
                     Inl e \<Rightarrow> Inl e
                   | Inr rain \<Rightarrow>
                       if rain > 200 then Inr ''high''
                       else if rain < 50 then Inr ''high''
                       else Inr rest))"

definition yield_generate_recommendations ::
  "string \<Rightarrow> real \<Rightarrow> real \<Rightarrow> (string \<times> py_value) list option \<Rightarrow> string
     \<Rightarrow> py_error + string list" where
  "yield_generate_recommendations crop_type predicted_yield fertilizer_usage weather_features
       risk_level =
     (case (case weather_features of
              None \<Rightarrow> Inr []
            | Some wd \<Rightarrow>
                if wd = [] then Inr []
                else (case raw_rainfall wd of
                        Inl e \<Rightarrow> Inl e
                      | Inr rain \<Rightarrow>
                          if rain < 50
                          then Inr [''Irrigation levels should be monitored closely due to low rainfall'']
                          else if rain > 200
                          then Inr [''Take measures to prevent waterlogging due to excessive rainfall'']
                          else Inr [])) of
        Inl e \<Rightarrow> Inl e
      | Inr weather_advice \<Rightarrow>
          let recommendations =
                (if fertilizer_usage < 50
                 then [''Consider increasing organic fertilizer usage by 15-20% for better soil health'']
                 else [])
                @ weather_advice
                @ (if risk_level = ''high''
                   then [''High risk detected - consider consulting agricultural experts'']
                   else [])
                @ (if predicted_yield < 30
                   then [''Yield prediction is below average - review farming practices and consider crop rotation'']
                   else [])
                @ (if lower crop_type = ''rice''
                   then [''Monitor water levels closely during flowering stage for optimal rice yield'']
                   else if lower crop_type = ''wheat''
                   then [''Ensure proper irrigation during grain filling stage'']
                   else [])
          in Inr (if recommendations = []
                  then [''Conditions look favorable - maintain current farming practices'']
                  else recommendations))"

record yield_model =
  ym_scaler :: "(real list \<Rightarrow> py_error + real list) option"
  ym_predict :: "real list \<Rightarrow> py_error + real"

record yield_result =
  yr_predicted_yield :: real
  yr_confidence :: real
  yr_risk_level :: string
  yr_recommendations :: "string list"

definition predict ::
  "yield_model \<Rightarrow> (string \<Rightarrow> real option) \<Rightarrow> date \<Rightarrow> string \<Rightarrow> string \<Rightarrow> string \<Rightarrow> string
     \<Rightarrow> string \<Rightarrow> real \<Rightarrow> (string \<times> py_value) list option \<Rightarrow> py_error + yield_result" where
  "predict model float_of today crop_type land_size sowing_date soil_type irrigation_type
       fertilizer_usage weather_features =
     (case yield_prepare_features float_of today crop_type land_size sowing_date soil_type
             irrigation_type fertilizer_usage weather_features of
        Inl e \<Rightarrow> Inl e
      | Inr features \<Rightarrow>
     (case (case ym_scaler model of
              Some transform \<Rightarrow> transform features
            | None \<Rightarrow> Inr features) of
        Inl e \<Rightarrow> Inl e
      | Inr features_scaled \<Rightarrow>
     (case ym_predict model features_scaled of
        Inl e \<Rightarrow> Inl e
      | Inr raw_yield \<Rightarrow>
          let predicted_yield = max 0.0 raw_yield;
              confidence = 85.0
          in case determine_risk_level predicted_yield fertilizer_usage weather_features of
               Inl e \<Rightarrow> Inl e
             | Inr risk_level \<Rightarrow>
            (case yield_generate_recommendations crop_type predicted_yield fertilizer_usage
                    weather_features risk_level of
               Inl e \<Rightarrow> Inl e
             | Inr recommendations \<Rightarrow>
                 Inr \<lparr>yr_predicted_yield = round2 predicted_yield,
                      yr_confidence = round2 confidence,
                      yr_risk_level = risk_level,
                      yr_recommendations = recommendations\<rparr>))))"

section \<open>\<^verbatim>\<open>inference/image_verification.py\<close>\<close>

subsection \<open>Built-ins: \<^verbatim>\<open>int(s, 16)\<close>, \<^verbatim>\<open>bin\<close>, \<^verbatim>\<open>hex\<close>, \<^verbatim>\<open>zfill\<close>\<close>

text \<open>The white space that \<^verbatim>\<open>int\<close> skips around the number.\<close>

definition int_space :: "char \<Rightarrow> bool" where
  "int_space c =
     (let n = (of_char c :: nat) in (9 \<le> n \<and> n \<le> 13) \<or> n = 32 \<or> n = 133 \<or> n = 160)"

definition hex_val :: "char \<Rightarrow> nat option" where
  "hex_val c =
     (let n = (of_char c :: nat)
      in if 48 \<le> n \<and> n \<le> 57 then Some (n - 48)
         else if 97 \<le> n \<and> n \<le> 102 then Some (n - 87)
         else if 65 \<le> n \<and> n \<le> 70 then Some (n - 55)
         else None)"

text \<open>
  The digit loop of the parser: \<open>acc\<close> is the value read so far, \<open>prev_us\<close> tells whether
  the last character read was an underscore. It stops at the first character that is
  neither a digit nor an underscore and returns the value and the rest; two underscores
  in a row or an underscore at the end are errors.
\<close>

fun scan_hex :: "nat \<Rightarrow> bool \<Rightarrow> string \<Rightarrow> (nat \<times> string) option" where
  "scan_hex acc prev_us [] = (if prev_us then None else Some (acc, []))"
| "scan_hex acc prev_us (c # cs) =
     (if c = CHR ''_'' then (if prev_us then None else scan_hex acc True cs)
      else (case hex_val c of
              Some d \<Rightarrow> scan_hex (16 * acc + d) False cs
            | None \<Rightarrow> (if prev_us then None else Some (acc, c # cs))))"

definition int16 :: "string \<Rightarrow> int option" where
  "int16 s =
     (let s1 = dropWhile int_space s;
          (negative, s2) =
             (case s1 of
                c # cs \<Rightarrow> if c = CHR ''+'' then (False, cs)
                          else if c = CHR ''-'' then (True, cs) else (False, s1)
              | [] \<Rightarrow> (False, s1));
          s3 = (case s2 of
                  a # b # r \<Rightarrow>
                    if a = CHR ''0'' \<and> (b = CHR ''x'' \<or> b = CHR ''X'')
                    then (case r of u # r' \<Rightarrow> if u = CHR ''_'' then r' else r | [] \<Rightarrow> r)
                    else s2
                | _ \<Rightarrow> s2)
      in case s3 of
           [] \<Rightarrow> None
         | c # _ \<Rightarrow>
             if hex_val c = None then None
             else (case scan_hex 0 False s3 of
                     None \<Rightarrow> None
                   | Some (n, rest) \<Rightarrow>
                       if dropWhile int_space rest \<noteq> [] then None
                       else Some (if negative then - int n else int n)))"

fun bin_digits :: "nat \<Rightarrow> string" where
  "bin_digits n =
     (if n < 2 then [digit_char n] else bin_digits (n div 2) @ [digit_char (n mod 2)])"

declare bin_digits.simps [simp del]

text \<open>\<^verbatim>\<open>bin(n)[2:]\<close>: the slice cuts \<^verbatim>\<open>0b\<close> from a non-negative number and \<^verbatim>\<open>-0\<close>
  from a negative one.\<close>

definition bin_tail :: "int \<Rightarrow> string" where
  "bin_tail n = (if n < 0 then CHR ''b'' # bin_digits (nat (- n)) else bin_digits (nat n))"

definition hex_char :: "nat \<Rightarrow> char" where
  "hex_char d = (if d < 10 then char_of (48 + d) else char_of (87 + d))"

fun hex_digits :: "nat \<Rightarrow> string" where
  "hex_digits n =
     (if n < 16 then [hex_char n] else hex_digits (n div 16) @ [hex_char (n mod 16)])"

declare hex_digits.simps [simp del]

definition zfill :: "nat \<Rightarrow> string \<Rightarrow> string" where
  "zfill width s =
     (if length s \<ge> width then s
      else (case s of
              c # cs \<Rightarrow>
                if c = CHR ''+'' \<or> c = CHR ''-''
                then c # replicate (width - length s) CHR ''0'' @ cs
                else replicate (width - length s) CHR ''0'' @ s
            | [] \<Rightarrow> replicate width CHR ''0''))"

subsection \<open>The perceptual hash\<close>

text \<open>\<^verbatim>\<open>int(hash_string, 2)\<close>, where \<^verbatim>\<open>hash_string\<close> has the character \<^verbatim>\<open>1\<close> for a
  true bit and \<^verbatim>\<open>0\<close> for a false one, most significant bit first.\<close>

definition bits_value :: "bool list \<Rightarrow> nat" where
  "bits_value bits = foldl (\<lambda>acc b. 2 * acc + (if b then 1 else 0)) 0 bits"

text \<open>\<^verbatim>\<open>hex(int(hash_string, 2))[2:]\<close>\<close>

definition hash_of_bits :: "bool list \<Rightarrow> string" where
  "hash_of_bits hash_bits = hex_digits (bits_value hash_bits)"

text \<open>
  The part of \<^verbatim>\<open>_compute_image_hash\<close> after the image is loaded and scaled down:
  \<open>pixels\<close> are the 64 grey values of the 8 x 8 image, row by row.
\<close>

definition average_hash :: "nat list \<Rightarrow> string" where
  "average_hash pixels =
     (let avg = real (sum_list pixels) / real (length pixels);
          hash_bits = map (\<lambda>p. real p > avg) pixels
      in hash_of_bits hash_bits)"

text \<open>
  Reading the image and the fallback digest are outside the repository: \<open>load_grey8x8\<close>
  gives the 64 grey values or fails, \<open>md5_hexdigest\<close> gives the digest of the file or
  fails (the file cannot be opened).
\<close>

definition compute_image_hash ::
  "(string \<Rightarrow> py_error + nat list) \<Rightarrow> (string \<Rightarrow> py_error + string) \<Rightarrow> string
     \<Rightarrow> py_error + string" where
  "compute_image_hash load_grey8x8 md5_hexdigest image_path =
     (case load_grey8x8 image_path of
        Inr pixels \<Rightarrow> Inr (average_hash pixels)
      | Inl e \<Rightarrow> md5_hexdigest image_path)"

definition hash_similarity :: "string \<Rightarrow> string \<Rightarrow> real" where
  "hash_similarity hash1 hash2 =
     (case int16 hash1 of
        None \<Rightarrow> 0.0
      | Some n1 \<Rightarrow>
     (case int16 hash2 of
        None \<Rightarrow> 0.0
      | Some n2 \<Rightarrow>
          let bin1 = zfill 64 (bin_tail n1);
              bin2 = zfill 64 (bin_tail n2);
              hamming_distance = length (filter (\<lambda>(c1, c2). c1 \<noteq> c2) (zip bin1 bin2))
          in 1.0 - real hamming_distance / real (length bin1)))"

text \<open>
  \<^verbatim>\<open>self.image_hashes\<close> is a Python set. It is modelled by the list of its elements in
  the order in which the loop visits them; adding an element is \<open>List.insert\<close>.
\<close>

definition check_duplicate :: "string list \<Rightarrow> string \<Rightarrow> real \<Rightarrow> bool \<times> real" where
  "check_duplicate image_hashes image_hash threshold =
     (if image_hashes = [] then (False, 0.0)
      else if image_hash \<in> set image_hashes then (True, 100.0)
      else
        let max_similarity =
              foldl (\<lambda>max_similarity stored_hash.
                       max max_similarity (hash_similarity image_hash stored_hash))
                0.0 image_hashes;
            is_duplicate = (max_similarity \<ge> threshold);
            confidence = max_similarity * 100.0
        in (is_duplicate, confidence))"

record image_result =
  ir_damage_confidence :: real
  ir_is_duplicate :: bool
  ir_duplicate_confidence :: real
  ir_image_hash :: string

text \<open>What \<^verbatim>\<open>verify\<close> takes from outside: the file system, the image library and the
  classifier.\<close>

record 'img image_env =
  path_exists :: "string \<Rightarrow> bool"
  preprocess_image :: "string \<Rightarrow> py_error + 'img"
  classifier_predict :: "'img \<Rightarrow> py_error + real"
  load_grey8x8 :: "string \<Rightarrow> py_error + nat list"
  md5_hexdigest :: "string \<Rightarrow> py_error + string"

text \<open>The result is the outcome of the call and the value of \<^verbatim>\<open>self.image_hashes\<close> after
  it.\<close>

definition verify ::
  "'img image_env \<Rightarrow> string list \<Rightarrow> string \<Rightarrow> string option
     \<Rightarrow> (py_error + image_result) \<times> string list" where
  "verify env image_hashes image_path crop_type =
     (if \<not> path_exists env image_path
      then (Inl (FileNotFoundError (''Image not found: '' @ image_path)), image_hashes)
      else
        (case preprocess_image env image_path of
           Inl e \<Rightarrow> (Inl e, image_hashes)
         | Inr img_array \<Rightarrow>
        (case classifier_predict env img_array of
           Inl e \<Rightarrow> (Inl e, image_hashes)
         | Inr damage_prediction \<Rightarrow>
        (let damage_confidence = damage_prediction * 100.0
         in case compute_image_hash (load_grey8x8 env) (md5_hexdigest env) image_path of
              Inl e \<Rightarrow> (Inl e, image_hashes)
            | Inr image_hash \<Rightarrow>
                let (is_duplicate, duplicate_confidence) =
                      check_duplicate image_hashes image_hash 0.95;
                    image_hashes' =
                      (if \<not> is_duplicate then List.insert image_hash image_hashes
                       else image_hashes)
                in (Inr \<lparr>ir_damage_confidence = round2 damage_confidence,
                          ir_is_duplicate = is_duplicate,
                          ir_duplicate_confidence = round2 duplicate_confidence,
                          ir_image_hash = image_hash\<rparr>,
                    image_hashes')))))"

section \<open>\<^verbatim>\<open>inference/claim_evaluator.py\<close>\<close>

definition make_decision ::
  "real \<Rightarrow> bool \<Rightarrow> real \<Rightarrow> real \<Rightarrow> bool \<Rightarrow> real \<Rightarrow> real \<Rightarrow> bool \<times> string" where
  "make_decision damage_confidence is_duplicate predicted_yield expected_yield
       fraud_detected fraud_score claim_amount =
     (if is_duplicate then
        (False, ''Claim rejected: Duplicate image detected. This image has been used in a previous claim.'')
      else if fraud_detected \<and> fraud_score > 70 then
        (False, ''Claim rejected: High fraud risk detected (score: '' @ fmt_1f fraud_score
                 @ ''). Multiple anomalies identified in claim data.'')
      else if damage_confidence < 30 then
        (False, ''Claim rejected: Insufficient evidence of crop damage (confidence: ''
                 @ fmt_1f damage_confidence
                 @ ''%). Please provide clearer images of the damage.'')
      else
        let yield_discrepancy =
              (if expected_yield > 0 then \<bar>predicted_yield - expected_yield\<bar> / expected_yield
               else 0);
            reasons =
              (if yield_discrepancy > 0.5
               then [''Significant discrepancy between predicted yield (''
                     @ fmt_1f predicted_yield @ '') and expected yield (''
                     @ fmt_1f expected_yield @ '')'']
               else [])
              @ (if fraud_detected \<and> fraud_score > 50
                 then [''Moderate fraud risk detected (score: '' @ fmt_1f fraud_score @ '')'']
                 else [])
              @ (if damage_confidence < 50
                 then [''Low damage confidence ('' @ fmt_1f damage_confidence @ ''%)'']
                 else [])
        in if length reasons \<ge> 2 then
             (False, ''Claim rejected: '' @ join '', '' reasons)
           else if fraud_detected \<and> fraud_score > 60 then
             (False, ''Claim rejected: Fraud detected with score '' @ fmt_1f fraud_score
                      @ ''. ''
                      @ (if reasons \<noteq> [] then join '', '' reasons
                         else ''Anomalies found in claim data.''))
           else if damage_confidence < 40 then
             (False, ''Claim rejected: Low damage confidence ('' @ fmt_1f damage_confidence
                      @ ''%). Please provide better quality images showing clear crop damage.'')
           else if reasons \<noteq> [] then
             (True, ''Claim approved with conditions: '' @ join '', '' reasons
                     @ ''. Further review recommended.'')
           else
             (True, ''Claim approved: All checks passed. Damage verified, no fraud detected, yield predictions align.''))"

definition evaluator_generate_recommendations ::
  "bool \<Rightarrow> real \<Rightarrow> bool \<Rightarrow> bool \<Rightarrow> real \<Rightarrow> real \<Rightarrow> string list" where
  "evaluator_generate_recommendations approved damage_confidence is_duplicate fraud_detected
       predicted_yield expected_yield =
     (let recommendations =
            (if \<not> approved then
               (if is_duplicate then [''Please submit original images of the crop damage''] else [])
               @ (if fraud_detected
                  then [''Review claim details and ensure all information is accurate''] else [])
               @ (if damage_confidence < 50
                  then [''Submit clearer, higher resolution images showing crop damage'']
                  else [])
             else
               (if damage_confidence < 70
                then [''For future claims, provide clearer images to expedite processing'']
                else [])
               @ (let yield_diff = \<bar>predicted_yield - expected_yield\<bar>
                  in if yield_diff > 5
                     then [''Consider reviewing yield expectations based on current conditions'']
                     else []))
      in if recommendations = [] then [''Claim processed successfully''] else recommendations)"

text \<open>
  The three collaborators the evaluator is constructed with. The image verifier owns a
  state \<open>'s\<close> (its set of hashes); a call returns its outcome and the state after it.
\<close>

record 's collaborators =
  image_verifier_verify :: "'s \<Rightarrow> string \<Rightarrow> string \<Rightarrow> (py_error + image_result) \<times> 's"
  yield_predictor_predict ::
    "string \<Rightarrow> string \<Rightarrow> string \<Rightarrow> string \<Rightarrow> string \<Rightarrow> real
       \<Rightarrow> (string \<times> py_value) list option \<Rightarrow> py_error + yield_result"
  fraud_detector_detect ::
    "string \<Rightarrow> string \<Rightarrow> real \<Rightarrow> real \<Rightarrow> (string \<times> py_value) list option \<Rightarrow> int
       \<Rightarrow> string option \<Rightarrow> py_error + fraud_result"

record verdict =
  v_approved :: bool
  v_damage_confidence :: real
  v_predicted_yield :: real
  v_fraud_detected :: bool
  v_reason :: string
  v_fraud_score :: "real option"
  v_is_duplicate :: bool
  v_recommendations :: "string list"

text \<open>Truth value of an optional string: \<^verbatim>\<open>None\<close> and the empty string are false.\<close>

definition truthy :: "string option \<Rightarrow> bool" where
  "truthy s = (case s of None \<Rightarrow> False | Some t \<Rightarrow> t \<noteq> [])"

text \<open>
  Step 2 of \<^verbatim>\<open>evaluate\<close>: the yield that enters the decision. The predictor is called
  in one branch only; an exception of the call is caught and leaves the default.
\<close>

definition evaluate_predicted_yield ::
  "'s collaborators \<Rightarrow> string \<Rightarrow> string \<Rightarrow> real \<Rightarrow> (string \<times> py_value) list option
     \<Rightarrow> string option \<Rightarrow> string option \<Rightarrow> string option \<Rightarrow> real option \<Rightarrow> real" where
  "evaluate_predicted_yield c crop_type land_size expected_yield weather_features
       sowing_date soil_type irrigation_type fertilizer_usage =
     (let predicted_yield = expected_yield
      in if truthy sowing_date \<and> truthy soil_type \<and> truthy irrigation_type
            \<and> fertilizer_usage \<noteq> None
         then (case yield_predictor_predict c crop_type land_size (the sowing_date)
                      (the soil_type) (the irrigation_type) (the fertilizer_usage)
                      weather_features of
                 Inr yield_result \<Rightarrow> yr_predicted_yield yield_result
               | Inl e \<Rightarrow> predicted_yield)
         else predicted_yield)"

definition evaluate ::
  "'s collaborators \<Rightarrow> 's \<Rightarrow> string \<Rightarrow> string \<Rightarrow> string \<Rightarrow> real \<Rightarrow> real
     \<Rightarrow> (string \<times> py_value) list option \<Rightarrow> string option \<Rightarrow> string option \<Rightarrow> string option
     \<Rightarrow> real option \<Rightarrow> int \<Rightarrow> string option \<Rightarrow> (py_error + verdict) \<times> 's" where
  "evaluate c st image_path crop_type land_size expected_yield claim_amount weather_features
       sowing_date soil_type irrigation_type fertilizer_usage historical_claims user_id =
     (case image_verifier_verify c st image_path crop_type of
        (Inl e, st') \<Rightarrow> (Inl e, st')
      | (Inr image_result, st') \<Rightarrow>
          let damage_confidence = ir_damage_confidence image_result;
              is_duplicate = ir_is_duplicate image_result;
              predicted_yield = evaluate_predicted_yield c crop_type land_size expected_yield
                             weather_features sowing_date soil_type irrigation_type
                             fertilizer_usage
          in case fraud_detector_detect c crop_type land_size expected_yield claim_amount
                    weather_features historical_claims user_id of
               Inl e \<Rightarrow> (Inl e, st')
             | Inr fraud_result \<Rightarrow>
                 let fraud_detected = fr_fraud_detected fraud_result;
                     fraud_score = fr_fraud_score fraud_result;
                     (approved, reason) = make_decision damage_confidence is_duplicate predicted_yield expected_yield
                                     fraud_detected fraud_score claim_amount;
                     recommendations = evaluator_generate_recommendations approved damage_confidence is_duplicate
                              fraud_detected predicted_yield expected_yield
                 in (Inr \<lparr>v_approved = approved,
                           v_damage_confidence = round2 damage_confidence,
                           v_predicted_yield = round2 predicted_yield,
                           v_fraud_detected = fraud_detected,
                           v_reason = reason,
                           v_fraud_score = (if fraud_detected then Some (round2 fraud_score) else None),
                           v_is_duplicate = is_duplicate,
                           v_recommendations = recommendations\<rparr>,
                     st'))"

text \<open>
  The evaluator over the three classes of the package, as \<^verbatim>\<open>__init__\<close> builds it when
  no collaborator is passed in: the state of the image verifier is its list of hashes.
\<close>

definition claim_evaluator ::
  "'img image_env \<Rightarrow> yield_model \<Rightarrow> fraud_model \<Rightarrow> (string \<Rightarrow> real option) \<Rightarrow> date
     \<Rightarrow> string list collaborators" where
  "claim_evaluator env ym fm float_of today =
     \<lparr>image_verifier_verify =
        (\<lambda>image_hashes image_path crop_type. verify env image_hashes image_path (Some crop_type)),
      yield_predictor_predict = predict ym float_of today,
      fraud_detector_detect = detect fm float_of\<rparr>"

section \<open>Definitions used in the statements\<close>

text \<open>
  The conversion table as the specification documents it (section 3, NormalizedArea):
  eight units, each with its factor to hectares.
\<close>

definition documented_table :: "(string \<times> real) list" where
  "documented_table =
     [(''acre'', 0.404686), (''bigha'', 0.1338), (''katha'', 0.0067), (''kanal'', 0.0506),
      (''marla'', 0.0025), (''guntha'', 0.0101), (''cent'', 0.0040), (''hectare'', 1.0)]"

text \<open>
  An instance of the parameter \<open>float_of\<close> for the examples: it reads a non-empty string
  of decimal digits, as \<^verbatim>\<open>float\<close> does, and rejects every other string. The examples
  apply it to digit strings and to strings that \<^verbatim>\<open>float\<close> rejects too.
\<close>

definition float_of_digits :: "string \<Rightarrow> real option" where
  "float_of_digits s =
     (if s \<noteq> [] \<and> list_all is_digit s
      then Some (real (foldl (\<lambda>acc c. 10 * acc + digit_val c) 0 s)) else None)"

text \<open>Fitted models for the examples: an outlier model that finds every claim normal,
  with score -0.4, and a regressor that predicts 30 quintals; neither has a fitted
  scaler.\<close>

definition example_fraud_model :: fraud_model where
  "example_fraud_model =
     \<lparr>fm_scaler = None, fm_predict = (\<lambda>features. Inr 1),
      fm_score_samples = (\<lambda>features. Inr (- 0.4))\<rparr>"

definition example_yield_model :: yield_model where
  "example_yield_model = \<lparr>ym_scaler = None, ym_predict = (\<lambda>features. Inr 30)\<rparr>"

text \<open>Collaborators for the examples: an image that is 80% damaged and new, a predicted
  yield of 30 quintals, and no fraud.\<close>

definition example_collaborators :: "unit collaborators" where
  "example_collaborators =
     \<lparr>image_verifier_verify =
        (\<lambda>st image_path crop_type.
           (Inr \<lparr>ir_damage_confidence = 80, ir_is_duplicate = False,
                  ir_duplicate_confidence = 0, ir_image_hash = ''ffffffff''\<rparr>, st)),
      yield_predictor_predict =
        (\<lambda>crop_type land_size sowing_date soil_type irrigation_type fertilizer_usage
            weather_features.
           Inr \<lparr>yr_predicted_yield = 30, yr_confidence = 85, yr_risk_level = ''low'',
                 yr_recommendations = []\<rparr>),
      fraud_detector_detect =
        (\<lambda>crop_type land_size expected_yield claim_amount weather_features
            historical_claims user_id.
           Inr \<lparr>fr_fraud_detected = False, fr_fraud_score = 30, fr_anomaly_features = [],
                 fr_confidence = 50\<rparr>)\<rparr>"

text \<open>
  The Hamming distance of two bit strings of the same length: the number of positions
  at which they differ.
\<close>

definition hamming :: "bool list \<Rightarrow> bool list \<Rightarrow> nat" where
  "hamming xs ys = length (filter (\<lambda>(x, y). x \<noteq> y) (zip xs ys))"

text \<open>The \<open>k\<close> low bits of a number, most significant first.\<close>

fun bits :: "nat \<Rightarrow> nat \<Rightarrow> bool list" where
  "bits 0 n = []"
| "bits (Suc k) n = bits k (n div 2) @ [odd n]"

definition bit_char :: "bool \<Rightarrow> char" where
  "bit_char b = (if b then CHR ''1'' else CHR ''0'')"

text \<open>The value of a string of hexadecimal digits, read from the left with the
  accumulator \<open>acc\<close>.\<close>

definition hex_value :: "nat \<Rightarrow> string \<Rightarrow> nat" where
  "hex_value acc ds = foldl (\<lambda>a c. 16 * a + the (hex_val c)) acc ds"

text \<open>
  Bit strings for the examples: three perceptual hashes of 64 bits (all bits set, the
  last three cleared, the last four cleared) and the bits of two digests of 128 bits
  that differ in their last four bits.
\<close>

definition bits_all_ones :: "bool list" where
  "bits_all_ones = replicate 64 True"

definition bits_three_off :: "bool list" where
  "bits_three_off = replicate 61 True @ replicate 3 False"

definition bits_four_off :: "bool list" where
  "bits_four_off = replicate 60 True @ replicate 4 False"

definition digest_bits_a :: "bool list" where
  "digest_bits_a = replicate 128 True"

definition digest_bits_b :: "bool list" where
  "digest_bits_b = replicate 124 True @ replicate 4 False"

text \<open>An image for the examples: the upper half black, the lower half white, judged 80%
  damaged by the classifier.\<close>

definition example_pixels :: "nat list" where
  "example_pixels = replicate 32 0 @ replicate 32 255"

definition example_env :: "unit image_env" where
  "example_env =
     \<lparr>path_exists = (\<lambda>image_path. True),
      preprocess_image = (\<lambda>image_path. Inr ()),
      classifier_predict = (\<lambda>img_array. Inr 0.8),
      load_grey8x8 = (\<lambda>image_path. Inr example_pixels),
      md5_hexdigest = (\<lambda>image_path. Inl (FileNotFoundError image_path))\<rparr>"

section \<open>Properties\<close>

subsection \<open>Evaluation of the examples\<close>

lemma replicate_numeral: "replicate (numeral k) x = x # replicate (pred_numeral k) x"
  by (simp add: numeral_eq_Suc)

lemmas str_simps = lower_def strip_def split_def py_lower_char_def py_isspace_def char_of_eq_iff

lemmas eval_simps = fraud_prepare_features_def fraud_parse_land_size_def parse_land_size_def
  convert_to_hectares_def conversion_factors_def float_of_digits_def is_digit_def
  digit_val_def fraud_encode_crop_type_def crop_encoding_def
  extract_weather_features_def default_features_def calculate_weather_anomaly_score_def
  truediv_def yield_prepare_features_def yield_parse_land_size_def yield_encode_crop_type_def
  encode_soil_type_def soil_encoding_def encode_irrigation_type_def irrigation_encoding_def

lemma sowing_example:
  "strptime ''2024-06-01'' = Some \<lparr>year = 2024, month = 6, day = 1\<rparr>"
  by code_simp

lemma days_example:
  "calculate_days_since_sowing \<lparr>year = 2024, month = 9, day = 15\<rparr> ''2024-06-01'' = 106"
  by (simp add: calculate_days_since_sowing_def sowing_example toordinal_def
        days_before_year_def days_before_month_def is_leap_def)

lemma season_example: "determine_season ''2024-06-01'' = (1, 0)"
  by code_simp

lemma yield_features_example:
  "yield_prepare_features float_of_digits \<lparr>year = 2024, month = 9, day = 15\<rparr>
       ''wheat'' ''5 acre'' ''2024-06-01'' ''black'' ''drip'' 60 None
     = Inr [1, 2.02343, 106, 1, 0, 60 / 0.4047, 25, 0, 60, 5, 8, 1, 0]"
  by (simp add: eval_simps str_simps days_example season_example)

lemma round2_examples: "round2 70 = 70" "round2 50 = 50" "round2 100 = 100"
  by (simp_all add: round2_def round_half_even_def)

lemma round2_more: "round2 80 = 80" "round2 (10063 / 500) = 2013 / 100"
  unfolding round2_def round_half_even_def Let_def by simp_all

lemma round2_zero: "round2 0 = 0"
  by (simp add: round2_def round_half_even_def)

lemma fraud_features_example:
  "fraud_prepare_features float_of_digits ''rice'' ''5'' 20 1000 None 0
     = Inr [0, 1, 20, 1000, 20, 1000, 50, 0, 25, 0, 60, 40]"
  by (simp add: eval_simps str_simps)

lemma fraud_features_example2:
  "fraud_prepare_features float_of_digits ''rice'' ''abc acre'' 20 1000 None 0
     = Inr [0, 1, 20, 1000, 20, 1000, 50, 0, 25, 0, 60, 40]"
  by (simp add: eval_simps str_simps)

lemma detect_example:
  "detect example_fraud_model float_of_digits ''rice'' ''5'' 20 1000 None 0 None
     = Inr \<lparr>fr_fraud_detected = False, fr_fraud_score = 70, fr_anomaly_features = [],
            fr_confidence = 50\<rparr>"
  by (simp add: detect_def fraud_features_example example_fraud_model_def
        identify_anomaly_features_def round2_examples)

lemmas hex_eval = hex_digits.simps hex_char_def char_of_eq_iff

lemma average_hash_example: "average_hash example_pixels = ''ffffffff''"
  by (simp add: average_hash_def example_pixels_def hash_of_bits_def bits_value_def
        replicate_numeral hex_eval)

lemma verify_example:
  "verify example_env [] ''field.jpg'' (Some ''rice'')
     = (Inr \<lparr>ir_damage_confidence = 80, ir_is_duplicate = False,
               ir_duplicate_confidence = 0, ir_image_hash = ''ffffffff''\<rparr>, [''ffffffff''])"
  by (simp add: verify_def example_env_def compute_image_hash_def average_hash_example
        check_duplicate_def round2_more round2_zero)

lemma yield_features_malformed_example:
  "yield_prepare_features float_of_digits \<lparr>year = 2024, month = 9, day = 15\<rparr>
       ''rice'' ''5'' ''2024-06-01'' ''black'' ''drip'' 60 None
     = Inr [0, 1, 106, 1, 0, 60 / 0.4047, 25, 0, 60, 5, 8, 1, 0]"
  by (simp add: eval_simps str_simps days_example season_example)

lemma round2_yield: "round2 30 = 30" "round2 85 = 85"
  by (simp_all add: round2_def round_half_even_def)

lemma predict_example:
  "predict example_yield_model float_of_digits \<lparr>year = 2024, month = 9, day = 15\<rparr>
       ''rice'' ''5'' ''2024-06-01'' ''black'' ''drip'' 60 None
     = Inr \<lparr>yr_predicted_yield = 30, yr_confidence = 85, yr_risk_level = ''low'',
            yr_recommendations =
              [''Monitor water levels closely during flowering stage for optimal rice yield'']\<rparr>"
  by (simp add: predict_def yield_features_malformed_example example_yield_model_def
        determine_risk_level_def yield_generate_recommendations_def round2_yield str_simps)

lemma evaluate_malformed_example:
  "evaluate (claim_evaluator example_env example_yield_model example_fraud_model
               float_of_digits \<lparr>year = 2024, month = 9, day = 15\<rparr>)
       [] ''field.jpg'' ''rice'' ''5'' 20 1000 None
       (Some ''2024-06-01'') (Some ''black'') (Some ''drip'') (Some 60) 0 None
     = (Inr \<lparr>v_approved = True, v_damage_confidence = 80, v_predicted_yield = 30,
               v_fraud_detected = False,
               v_reason = ''Claim approved: All checks passed. Damage verified, no fraud detected, yield predictions align.'',
               v_fraud_score = None, v_is_duplicate = False,
               v_recommendations =
                 [''Consider reviewing yield expectations based on current conditions'']\<rparr>,
        [''ffffffff''])"
  by (simp add: evaluate_def claim_evaluator_def verify_example detect_example predict_example
        evaluate_predicted_yield_def truthy_def make_decision_def
        evaluator_generate_recommendations_def round2_more round2_yield)

subsection \<open>The decision cascade\<close>

text \<open>
  C1. Whenever \<open>is_duplicate\<close> is true the decision is a rejection with the
  duplicate-specific reason, whatever the damage confidence, the two yields, the fraud
  flag, the fraud score and the claim amount are: the first rule of the cascade is
  tested before every other one and returns at once.
\<close>

theorem make_decision_duplicate_first:
  "make_decision damage_confidence True predicted_yield expected_yield
       fraud_detected fraud_score claim_amount =
     (False, ''Claim rejected: Duplicate image detected. This image has been used in a previous claim.'')"
  by (simp add: make_decision_def)


subsection \<open>Units of area\<close>

text \<open>
  C8, as the code has it. \<^verbatim>\<open>convert_to_hectares\<close> looks the lower-cased unit up in the
  table of the code, which holds the eight units of the documented table and the two
  plural keys \<^verbatim>\<open>hectares\<close> and \<^verbatim>\<open>cents\<close> with the factors of their singulars. For a
  unit of the documented table it returns the value times the factor of the table (5
  acre are 2.02343 hectares); for \<^verbatim>\<open>hectares\<close> it returns the value and for \<^verbatim>\<open>cents\<close>
  the value times 0.0040, without a warning; for every other unit it returns the value
  unchanged and logs one warning. It never fails.
\<close>

theorem convert_to_hectares_table:
  "(map_of documented_table (lower unit) = Some factor
       \<longrightarrow> convert_to_hectares value unit = (value * factor, []))
   \<and> (lower unit = ''hectares'' \<longrightarrow> convert_to_hectares value unit = (value, []))
   \<and> (lower unit = ''cents'' \<longrightarrow> convert_to_hectares value unit = (value * 0.0040, []))
   \<and> (lower unit \<notin> fst ` set documented_table
        \<and> lower unit \<noteq> ''hectares'' \<and> lower unit \<noteq> ''cents''
       \<longrightarrow> convert_to_hectares value unit =
             (value, [''Unknown unit '' @ [CHR 0x27] @ unit @ [CHR 0x27] @ '', assuming hectares'']))
   \<and> fst (convert_to_hectares 5 ''acre'') = 2.02343"
proof (intro conjI impI)
  assume "map_of documented_table (lower unit) = Some factor"
  then show "convert_to_hectares value unit = (value * factor, [])"
    by (auto simp: documented_table_def convert_to_hectares_def conversion_factors_def
             split: if_splits)
next
  assume "lower unit = ''hectares''"
  then show "convert_to_hectares value unit = (value, [])"
    by (simp add: convert_to_hectares_def conversion_factors_def)
next
  assume "lower unit = ''cents''"
  then show "convert_to_hectares value unit = (value * 0.0040, [])"
    by (simp add: convert_to_hectares_def conversion_factors_def)
next
  assume "lower unit \<notin> fst ` set documented_table
          \<and> lower unit \<noteq> ''hectares'' \<and> lower unit \<noteq> ''cents''"
  then have "map_of conversion_factors (lower unit) = None"
    by (simp add: documented_table_def conversion_factors_def)
  then show "convert_to_hectares value unit =
             (value, [''Unknown unit '' @ [CHR 0x27] @ unit @ [CHR 0x27] @ '', assuming hectares''])"
    by (simp add: convert_to_hectares_def)
next
  show "fst (convert_to_hectares 5 ''acre'') = 2.02343"
    by (simp add: convert_to_hectares_def conversion_factors_def str_simps)
qed

theorem convert_to_hectares_table_witness:
  "convert_to_hectares 5 ''ACRE'' = (2.02343, [])
   \<and> convert_to_hectares 3 ''Hectares'' = (3, [])
   \<and> convert_to_hectares 5 ''cents'' = (0.02, [])
   \<and> convert_to_hectares 2 ''acres'' = (2, [''Unknown unit 'acres', assuming hectares''])"
  using convert_to_hectares_table [of "''ACRE''" "0.404686" 5]
    convert_to_hectares_table [of "''Hectares''" 0 3]
    convert_to_hectares_table [of "''cents''" 0 5]
    convert_to_hectares_table [of "''acres''" 0 2]
  by (simp add: documented_table_def str_simps)

text \<open>
  C8, as the claim has it, fails at the unit \<^verbatim>\<open>cents\<close>: it is no unit of the documented
  table, yet 5 cents are converted to 0.02 hectares, with no warning, and not returned
  unchanged.
\<close>

theorem convert_to_hectares_table_counterexample:
  "map_of documented_table (lower ''cents'') = None
   \<and> convert_to_hectares 5 ''cents'' = (0.02, [])
   \<and> convert_to_hectares 5 ''cents''
       \<noteq> (5, [''Unknown unit '' @ [CHR 0x27] @ ''cents'' @ [CHR 0x27] @ '', assuming hectares''])"
  by (simp add: documented_table_def convert_to_hectares_def conversion_factors_def str_simps)

subsection \<open>Crop codes\<close>

text \<open>
  C10. A crop type whose lower-cased, trimmed form is none of rice, wheat, cotton,
  sugarcane and maize gets the code 0 from the encoder of the fraud detector and from
  the encoder of the yield predictor, and 0 is the code of rice in both: the fraud
  feature vector and the yield feature vector are those of rice.
\<close>

theorem encode_crop_type_unknown_is_rice:
  "strip (lower crop_type) \<notin> {''rice'', ''wheat'', ''cotton'', ''sugarcane'', ''maize''}
   \<Longrightarrow> fraud_encode_crop_type crop_type = 0 \<and> yield_encode_crop_type crop_type = 0
       \<and> fraud_encode_crop_type ''rice'' = 0 \<and> yield_encode_crop_type ''rice'' = 0
       \<and> fraud_prepare_features float_of crop_type land_size expected_yield claim_amount
            weather_features historical_claims
          = fraud_prepare_features float_of ''rice'' land_size expected_yield claim_amount
              weather_features historical_claims
       \<and> yield_prepare_features float_of today crop_type land_size sowing_date soil_type
            irrigation_type fertilizer_usage weather_features
          = yield_prepare_features float_of today ''rice'' land_size sowing_date soil_type
              irrigation_type fertilizer_usage weather_features"
proof -
  assume a: "strip (lower crop_type) \<notin> {''rice'', ''wheat'', ''cotton'', ''sugarcane'', ''maize''}"
  have f: "fraud_encode_crop_type crop_type = 0" "fraud_encode_crop_type ''rice'' = 0"
    using a by (simp_all add: fraud_encode_crop_type_def crop_encoding_def str_simps)
  have y: "yield_encode_crop_type crop_type = 0" "yield_encode_crop_type ''rice'' = 0"
    using a by (simp_all add: yield_encode_crop_type_def crop_encoding_def str_simps)
  show ?thesis
    by (simp add: f y fraud_prepare_features_def yield_prepare_features_def)
qed

theorem encode_crop_type_unknown_is_rice_witness:
  "strip (lower '' Unknown'') = ''unknown''
   \<and> fraud_encode_crop_type '' Unknown'' = fraud_encode_crop_type ''rice''
   \<and> yield_encode_crop_type '' Unknown'' = yield_encode_crop_type ''rice''
   \<and> fraud_prepare_features float_of_digits '' Unknown'' ''5'' 20 1000 None 0
       = Inr [0, 1, 20, 1000, 20, 1000, 50, 0, 25, 0, 60, 40]"
  using encode_crop_type_unknown_is_rice
          [where crop_type = "'' Unknown''" and float_of = float_of_digits
             and land_size = "''5''" and expected_yield = 20 and claim_amount = 1000
             and weather_features = None and historical_claims = 0]
        fraud_features_example
  by (simp add: str_simps)

subsection \<open>Season flags\<close>

lemma month_alternatives_range:
  "(m, r) \<in> set (month_alternatives cs) \<Longrightarrow> 1 \<le> m \<and> m \<le> 12"
  by (auto simp: month_alternatives_def in_range_def digit_val_def
           split: list.splits if_splits)

lemma match_ymd_month:
  assumes "match_ymd s = Some (y, m, d, r)"
  shows "1 \<le> m \<and> m \<le> 12"
proof -
  let ?days = "\<lambda>(m, r). case r of
                       h2 # r2 \<Rightarrow>
                         if h2 = CHR ''-''
                         then map (\<lambda>(d, r3). (m, d, r3)) (day_alternatives r2) else []
                     | [] \<Rightarrow> []"
  from assms obtain rest xs where
    "concat (map ?days (month_alternatives rest)) = (m, d, r) # xs"
    by (auto simp: match_ymd_def split: list.splits if_splits)
  then have "(m, d, r) \<in> set (concat (map ?days (month_alternatives rest)))"
    by simp
  then obtain m' r' where alt: "(m', r') \<in> set (month_alternatives rest)"
    and "(m, d, r) \<in> set (?days (m', r'))"
    by auto
  then have "m = m'"
    by (auto split: list.splits if_splits)
  with month_alternatives_range [OF alt] show ?thesis by simp
qed

lemma strptime_month:
  assumes "strptime s = Some d"
  shows "1 \<le> month d \<and> month d \<le> 12"
proof -
  from assms obtain y m dd r where m: "match_ymd s = Some (y, m, dd, r)" and "month d = m"
    by (auto simp: strptime_def split: option.splits if_splits)
  with match_ymd_month [OF m] show ?thesis by simp
qed

text \<open>
  C9. For a sowing date that \<^verbatim>\<open>strptime\<close> accepts, the Kharif flag is 1 exactly when
  the month is between 6 and 10 and the Rabi flag is 1 exactly when the month is at
  least 11 or at most 4; the two flags are never both 1, and both are 0 in month 5 and
  in no other month.
\<close>

theorem determine_season_flags:
  "strptime sowing_date = Some d \<Longrightarrow>
     determine_season sowing_date =
       (if 6 \<le> month d \<and> month d \<le> 10 then 1 else 0,
        if month d \<ge> 11 \<or> month d \<le> 4 then 1 else 0)
     \<and> determine_season sowing_date \<noteq> (1, 1)
     \<and> (determine_season sowing_date = (0, 0) \<longleftrightarrow> month d = 5)"
  using strptime_month [of sowing_date d]
  by (auto simp: determine_season_def Let_def)

theorem determine_season_flags_witness:
  "strptime ''2024-05-15'' = Some \<lparr>year = 2024, month = 5, day = 15\<rparr>
   \<and> determine_season ''2024-05-15'' = (0, 0)"
proof -
  have h: "strptime ''2024-05-15'' = Some \<lparr>year = 2024, month = 5, day = 15\<rparr>"
    by code_simp
  show ?thesis using h determine_season_flags [OF h] by simp
qed

subsection \<open>The fraud feature vector\<close>

lemma get_float_no_zero_division:
  "get_float float_of wd key default_value = Inl e \<Longrightarrow> e \<noteq> ZeroDivisionError"
  by (auto simp: get_float_def py_float_def split: option.splits py_value.splits)

lemma extract_weather_features_no_zero_division:
  "extract_weather_features float_of weather_features = Inl e \<Longrightarrow> e \<noteq> ZeroDivisionError"
  unfolding extract_weather_features_def
  by (auto split: option.splits if_splits sum.splits dest: get_float_no_zero_division)

lemma extract_weather_features_None:
  "extract_weather_features float_of None = Inr default_features"
  by (simp add: extract_weather_features_def)

text \<open>
  C6. Building the fraud feature vector never raises \<^verbatim>\<open>ZeroDivisionError\<close>. In the
  vector it returns, the claim-to-yield ratio (index 6) is 0 whenever the expected yield
  is at most 0, and the yield per hectare and the claim per hectare (indices 4 and 5)
  are 0 whenever the area (index 1) is at most 0. With no weather data the vector is
  always returned.
\<close>

theorem fraud_prepare_features_no_zero_division:
  "(let r = fraud_prepare_features float_of crop_type land_size expected_yield claim_amount
              weather_features historical_claims;
        area = fraud_parse_land_size float_of land_size
    in r \<noteq> Inl ZeroDivisionError
       \<and> (\<forall>fs. r = Inr fs \<longrightarrow>
              length fs = 12 \<and> fs ! 1 = area
              \<and> (expected_yield \<le> 0 \<longrightarrow> fs ! 6 = 0)
              \<and> (area \<le> 0 \<longrightarrow> fs ! 4 = 0 \<and> fs ! 5 = 0))
       \<and> (weather_features = None \<longrightarrow> (\<exists>fs. r = Inr fs)))"
proof (cases "extract_weather_features float_of weather_features")
  case (Inl e)
  have "weather_features \<noteq> None"
    using Inl by (cases weather_features) (simp_all add: extract_weather_features_None)
  with Inl extract_weather_features_no_zero_division [OF Inl] show ?thesis
    by (simp add: fraud_prepare_features_def Let_def)
next
  case (Inr w)
  then show ?thesis
    by (simp add: fraud_prepare_features_def truediv_def Let_def)
qed

theorem fraud_prepare_features_no_zero_division_witness:
  "fraud_prepare_features float_of_digits ''rice'' ''0 acre'' 0 1000 None 0
     = Inr [0, 0, 0, 1000, 0, 0, 0, 0, 25, 0, 60, 40]"
  using fraud_prepare_features_no_zero_division
          [of float_of_digits "''rice''" "''0 acre''" 0 1000 None 0]
  by (simp add: eval_simps str_simps)

subsection \<open>The fertilizer feature\<close>

text \<open>
  C3, as the code has it. The fertilizer feature (index 5 of the 13 features of the yield
  vector) is the fertilizer usage divided by 0.4047, the rounded factor that the
  comment of the source line names.
\<close>

theorem yield_fertilizer_feature:
  "yield_prepare_features float_of today crop_type land_size sowing_date soil_type
       irrigation_type fertilizer_usage weather_features = Inr fs
   \<Longrightarrow> length fs = 13 \<and> fs ! 5 = fertilizer_usage / 0.4047"
  by (auto simp: yield_prepare_features_def Let_def split: sum.splits prod.splits)

theorem yield_fertilizer_feature_witness:
  "yield_prepare_features float_of_digits \<lparr>year = 2024, month = 9, day = 15\<rparr>
       ''wheat'' ''5 acre'' ''2024-06-01'' ''black'' ''drip'' 60 None
     = Inr [1, 2.02343, 106, 1, 0, 60 / 0.4047, 25, 0, 60, 5, 8, 1, 0]
   \<and> [1, 2.02343, 106, 1, 0, 60 / 0.4047, 25, 0, 60, 5, 8, 1, 0 :: real] ! 5 = 60 / 0.4047"
  using yield_features_example yield_fertilizer_feature [OF yield_features_example]
  by simp

text \<open>
  C3, as the claim has it, fails: for 60 kg per acre the feature is 60 / 0.4047, which is
  not 60 / 0.404686.
\<close>

theorem yield_fertilizer_feature_counterexample:
  "yield_prepare_features float_of_digits \<lparr>year = 2024, month = 9, day = 15\<rparr>
       ''wheat'' ''5 acre'' ''2024-06-01'' ''black'' ''drip'' 60 None
     = Inr [1, 2.02343, 106, 1, 0, 60 / 0.4047, 25, 0, 60, 5, 8, 1, 0]
   \<and> (60 :: real) / 0.4047 \<noteq> 60 / 0.404686"
  using yield_features_example by simp

subsection \<open>Malformed land sizes\<close>

lemma parse_land_size_malformed:
  assumes "length (split (strip land_size)) < 2
           \<or> float_of (split (strip land_size) ! 0) = None"
  shows "parse_land_size float_of land_size =
           Inl (ValueError (''Invalid land size format: '' @ land_size
                  @ ''. Expected format: '' @ [CHR 0x27] @ ''5 acre'' @ [CHR 0x27]))"
  using assms by (auto simp: parse_land_size_def Let_def)

lemma parse_one_hectare:
  assumes "float_of ''1'' = Some 1"
  shows "parse_land_size float_of ''1 hectare'' = Inr (1, ''hectare'')"
  using assms by (simp add: parse_land_size_def str_simps)

lemma one_hectare:
  assumes "float_of ''1'' = Some 1"
  shows "fraud_parse_land_size float_of ''1 hectare'' = 1"
    and "yield_parse_land_size float_of ''1 hectare'' = 1"
  using parse_one_hectare [where float_of = float_of, OF assms]
  by (simp_all add: fraud_parse_land_size_def yield_parse_land_size_def
        convert_to_hectares_def conversion_factors_def str_simps)

text \<open>
  C2, as the code has it. For a land size with fewer than two tokens, or with a first
  token that \<^verbatim>\<open>float\<close> rejects, \<^verbatim>\<open>parse_land_size\<close> raises the format error, but the
  two \<^verbatim>\<open>_parse_land_size\<close> methods catch it and return one hectare: fraud detection
  and yield prediction go on exactly as they do for the land size \<^verbatim>\<open>1 hectare\<close>.
\<close>

theorem malformed_land_size_defaults_to_one_hectare:
  assumes malformed: "length (split (strip land_size)) < 2
                      \<or> float_of (split (strip land_size) ! 0) = None"
      and one: "float_of ''1'' = Some 1"
  shows "parse_land_size float_of land_size =
           Inl (ValueError (''Invalid land size format: '' @ land_size
                  @ ''. Expected format: '' @ [CHR 0x27] @ ''5 acre'' @ [CHR 0x27]))
     \<and> fraud_parse_land_size float_of land_size = 1
     \<and> yield_parse_land_size float_of land_size = 1
     \<and> detect fm float_of crop_type land_size expected_yield claim_amount weather_features
           historical_claims user_id
         = detect fm float_of crop_type ''1 hectare'' expected_yield claim_amount
             weather_features historical_claims user_id
     \<and> predict ym float_of today crop_type land_size sowing_date soil_type irrigation_type
           fertilizer_usage weather_features
         = predict ym float_of today crop_type ''1 hectare'' sowing_date soil_type
             irrigation_type fertilizer_usage weather_features"
proof -
  note p = parse_land_size_malformed [where float_of = float_of and land_size = land_size, OF malformed]
  have f: "fraud_parse_land_size float_of land_size = 1"
    by (simp add: fraud_parse_land_size_def p)
  have y: "yield_parse_land_size float_of land_size = 1"
    by (simp add: yield_parse_land_size_def p)
  have "fraud_prepare_features float_of crop_type land_size expected_yield claim_amount
            weather_features historical_claims
          = fraud_prepare_features float_of crop_type ''1 hectare'' expected_yield
              claim_amount weather_features historical_claims"
    by (simp add: fraud_prepare_features_def f one_hectare(1) [where float_of = float_of, OF one])
  then have d: "detect fm float_of crop_type land_size expected_yield claim_amount
                    weather_features historical_claims user_id
                  = detect fm float_of crop_type ''1 hectare'' expected_yield claim_amount
                      weather_features historical_claims user_id"
    by (simp add: detect_def)
  have "yield_prepare_features float_of today crop_type land_size sowing_date soil_type
            irrigation_type fertilizer_usage weather_features
          = yield_prepare_features float_of today crop_type ''1 hectare'' sowing_date
              soil_type irrigation_type fertilizer_usage weather_features"
    by (simp add: yield_prepare_features_def y one_hectare(2) [where float_of = float_of, OF one])
  then have "predict ym float_of today crop_type land_size sowing_date soil_type
                 irrigation_type fertilizer_usage weather_features
               = predict ym float_of today crop_type ''1 hectare'' sowing_date soil_type
                   irrigation_type fertilizer_usage weather_features"
    by (simp add: predict_def)
  with p f y d show ?thesis by simp
qed

text \<open>
  C2, as the claim has it, fails: for the land sizes \<^verbatim>\<open>5\<close> (one token) and
  \<^verbatim>\<open>abc acre\<close> (no number) the parser raises, yet the fraud features are built with an
  area of 1.0, the detector returns a result, and the evaluation of a whole claim with
  the land size \<^verbatim>\<open>5\<close> returns an approval and adds the hash of the image to the
  stored hashes.
\<close>

theorem malformed_land_size_counterexample:
  "parse_land_size float_of_digits ''5''
     = Inl (ValueError (''Invalid land size format: 5. Expected format: ''
              @ [CHR 0x27] @ ''5 acre'' @ [CHR 0x27]))
   \<and> fraud_prepare_features float_of_digits ''rice'' ''5'' 20 1000 None 0
       = Inr [0, 1, 20, 1000, 20, 1000, 50, 0, 25, 0, 60, 40]
   \<and> fraud_prepare_features float_of_digits ''rice'' ''abc acre'' 20 1000 None 0
       = Inr [0, 1, 20, 1000, 20, 1000, 50, 0, 25, 0, 60, 40]
   \<and> detect example_fraud_model float_of_digits ''rice'' ''5'' 20 1000 None 0 None
       = Inr \<lparr>fr_fraud_detected = False, fr_fraud_score = 70, fr_anomaly_features = [],
              fr_confidence = 50\<rparr>
   \<and> evaluate (claim_evaluator example_env example_yield_model example_fraud_model
                 float_of_digits \<lparr>year = 2024, month = 9, day = 15\<rparr>)
         [] ''field.jpg'' ''rice'' ''5'' 20 1000 None
         (Some ''2024-06-01'') (Some ''black'') (Some ''drip'') (Some 60) 0 None
       = (Inr \<lparr>v_approved = True, v_damage_confidence = 80, v_predicted_yield = 30,
                 v_fraud_detected = False,
                 v_reason = ''Claim approved: All checks passed. Damage verified, no fraud detected, yield predictions align.'',
                 v_fraud_score = None, v_is_duplicate = False,
                 v_recommendations =
                   [''Consider reviewing yield expectations based on current conditions'']\<rparr>,
          [''ffffffff''])"
  using fraud_features_example fraud_features_example2 detect_example
    evaluate_malformed_example
  by (simp add: parse_land_size_def str_simps)

theorem malformed_land_size_defaults_to_one_hectare_witness:
  "length (split (strip ''5'')) < 2 \<and> float_of_digits ''1'' = Some 1
   \<and> fraud_parse_land_size float_of_digits ''5'' = 1
   \<and> yield_parse_land_size float_of_digits ''5'' = 1
   \<and> detect example_fraud_model float_of_digits ''rice'' ''5'' 20 1000 None 0 None
       = detect example_fraud_model float_of_digits ''rice'' ''1 hectare'' 20 1000 None 0 None
   \<and> predict example_yield_model float_of_digits \<lparr>year = 2024, month = 9, day = 15\<rparr>
         ''rice'' ''5'' ''2024-06-01'' ''black'' ''drip'' 60 None
       = predict example_yield_model float_of_digits \<lparr>year = 2024, month = 9, day = 15\<rparr>
           ''rice'' ''1 hectare'' ''2024-06-01'' ''black'' ''drip'' 60 None"
proof -
  have m: "length (split (strip ''5'')) < 2 \<or> float_of_digits (split (strip ''5'') ! 0) = None"
    by (simp add: str_simps)
  have o: "float_of_digits ''1'' = Some 1"
    by (simp add: float_of_digits_def is_digit_def digit_val_def)
  show ?thesis
    using o malformed_land_size_defaults_to_one_hectare
            [where float_of = float_of_digits and land_size = "''5''"
               and fm = example_fraud_model and ym = example_yield_model
               and crop_type = "''rice''"
               and expected_yield = 20 and claim_amount = 1000
               and weather_features = None and historical_claims = 0
               and user_id = None and today = "\<lparr>year = 2024, month = 9, day = 15\<rparr>"
               and sowing_date = "''2024-06-01''" and soil_type = "''black''"
               and irrigation_type = "''drip''" and fertilizer_usage = 60, OF m o]
    by (simp add: str_simps)
qed

subsection \<open>Evaluation without the inputs of the yield predictor\<close>

lemma evaluate_predicted_yield_absent:
  assumes "sowing_date = None \<or> soil_type = None \<or> irrigation_type = None
           \<or> fertilizer_usage = None"
  shows "evaluate_predicted_yield c crop_type land_size expected_yield weather_features
           sowing_date soil_type irrigation_type fertilizer_usage = expected_yield"
  using assms by (auto simp: evaluate_predicted_yield_def truthy_def)

text \<open>
  C7, as the code has it. When the sowing date, the soil type, the irrigation type or
  the fertilizer usage is absent, the outcome of \<^verbatim>\<open>evaluate\<close> does not depend on the
  yield predictor (it is not called); and whenever image verification and fraud
  detection return, \<^verbatim>\<open>evaluate\<close> returns a verdict whose decision is taken with the
  expected yield in the place of the predicted yield and whose \<^verbatim>\<open>predicted_yield\<close> is
  the expected yield rounded to two decimals.
\<close>

theorem evaluate_without_yield_inputs:
  assumes absent: "sowing_date = None \<or> soil_type = None \<or> irrigation_type = None
                   \<or> fertilizer_usage = None"
  shows "evaluate (c\<lparr>yield_predictor_predict := p\<rparr>) st image_path crop_type land_size
             expected_yield claim_amount weather_features sowing_date soil_type
             irrigation_type fertilizer_usage historical_claims user_id
           = evaluate c st image_path crop_type land_size expected_yield claim_amount
               weather_features sowing_date soil_type irrigation_type fertilizer_usage
               historical_claims user_id
     \<and> (\<forall>image_result st' fraud_result.
            image_verifier_verify c st image_path crop_type = (Inr image_result, st')
            \<and> fraud_detector_detect c crop_type land_size expected_yield claim_amount
                  weather_features historical_claims user_id = Inr fraud_result
            \<longrightarrow> (\<exists>v. evaluate c st image_path crop_type land_size expected_yield claim_amount
                        weather_features sowing_date soil_type irrigation_type
                        fertilizer_usage historical_claims user_id = (Inr v, st')
                     \<and> (v_approved v, v_reason v)
                         = make_decision (ir_damage_confidence image_result)
                             (ir_is_duplicate image_result) expected_yield expected_yield
                             (fr_fraud_detected fraud_result) (fr_fraud_score fraud_result)
                             claim_amount
                     \<and> v_predicted_yield v = round2 expected_yield))"
proof -
  have a: "evaluate_predicted_yield c' crop_type land_size expected_yield weather_features
             sowing_date soil_type irrigation_type fertilizer_usage = expected_yield" for c' :: "'a collaborators"
    using evaluate_predicted_yield_absent [OF absent] .
  show ?thesis
    by (auto simp: evaluate_def a Let_def split: prod.splits sum.splits)
qed


lemma evaluate_example:
  "evaluate example_collaborators () ''field.jpg'' ''rice'' ''1 hectare'' 20.126 1000 None
       None None None None 0 None
     = (Inr \<lparr>v_approved = True, v_damage_confidence = 80, v_predicted_yield = 20.13,
               v_fraud_detected = False,
               v_reason = ''Claim approved: All checks passed. Damage verified, no fraud detected, yield predictions align.'',
               v_fraud_score = None, v_is_duplicate = False,
               v_recommendations = [''Claim processed successfully'']\<rparr>, ())"
  by (simp add: evaluate_def example_collaborators_def evaluate_predicted_yield_def truthy_def
        make_decision_def evaluator_generate_recommendations_def round2_more)

text \<open>
  C7, as the claim has it, fails in the reported value: with no sowing date and an
  expected yield of 20.126 the verdict reports 20.13.
\<close>

theorem evaluate_without_yield_inputs_counterexample:
  "evaluate example_collaborators () ''field.jpg'' ''rice'' ''1 hectare'' 20.126 1000 None
       None None None None 0 None
     = (Inr \<lparr>v_approved = True, v_damage_confidence = 80, v_predicted_yield = 20.13,
               v_fraud_detected = False,
               v_reason = ''Claim approved: All checks passed. Damage verified, no fraud detected, yield predictions align.'',
               v_fraud_score = None, v_is_duplicate = False,
               v_recommendations = [''Claim processed successfully'']\<rparr>, ())
   \<and> (20.13 :: real) \<noteq> 20.126"
  using evaluate_example by simp

theorem evaluate_without_yield_inputs_witness:
  "evaluate (example_collaborators
               \<lparr>yield_predictor_predict := (\<lambda>a b c d e f g. Inl (CollaboratorError ''down''))\<rparr>)
       () ''field.jpg'' ''rice'' ''1 hectare'' 20.126 1000 None
       None (Some ''black'') (Some ''drip'') (Some 60) 0 None
     = evaluate example_collaborators () ''field.jpg'' ''rice'' ''1 hectare'' 20.126 1000 None
         None (Some ''black'') (Some ''drip'') (Some 60) 0 None"
  using evaluate_without_yield_inputs
          [where sowing_date = None and c = example_collaborators and st = "()"
             and p = "(\<lambda>a b c d e f g. Inl (CollaboratorError ''down''))"
             and soil_type = "Some ''black''" and irrigation_type = "Some ''drip''"
             and fertilizer_usage = "Some 60" and image_path = "''field.jpg''"
             and crop_type = "''rice''" and land_size = "''1 hectare''"
             and expected_yield = "20.126" and claim_amount = 1000
             and weather_features = None and historical_claims = 0 and user_id = None]
  by simp

subsection \<open>Hash strings and their binary expansions\<close>

lemma digit_char_simps: "digit_char 0 = CHR ''0''" "digit_char (Suc 0) = CHR ''1''"
  by (simp_all add: digit_char_def char_of_eq_iff)

lemma hex_val_hex_char: "d < 16 \<Longrightarrow> hex_val (hex_char d) = Some d"
  by (auto simp: hex_val_def hex_char_def Let_def)

lemma hex_val_Some_not_special:
  "hex_val c = Some d \<Longrightarrow>
     \<not> int_space c \<and> c \<noteq> CHR ''+'' \<and> c \<noteq> CHR ''-'' \<and> c \<noteq> CHR ''_''
     \<and> c \<noteq> CHR ''x'' \<and> c \<noteq> CHR ''X''"
  by (auto simp: hex_val_def int_space_def Let_def split: if_splits)

lemma hex_digits_not_Nil: "hex_digits n \<noteq> []"
  by (subst hex_digits.simps) simp

lemma hex_digits_chars: "c \<in> set (hex_digits n) \<Longrightarrow> \<exists>d. hex_val c = Some d"
proof (induction n arbitrary: c rule: hex_digits.induct)
  case (1 n)
  show ?case
  proof (cases "n < 16")
    case True
    with "1.prems" show ?thesis
      by (subst (asm) hex_digits.simps) (simp add: hex_val_hex_char)
  next
    case False
    with "1.prems" have "c \<in> set (hex_digits (n div 16)) \<or> c = hex_char (n mod 16)"
      by (subst (asm) hex_digits.simps) auto
    then show ?thesis
      using "1.IH" [OF False] by (auto simp: hex_val_hex_char)
  qed
qed

lemma scan_hex_all_digits:
  "(\<And>c. c \<in> set ds \<Longrightarrow> \<exists>d. hex_val c = Some d) \<Longrightarrow>
     scan_hex acc p ds = (if ds = [] \<and> p then None else Some (hex_value acc ds, []))"
proof (induction ds arbitrary: acc p)
  case Nil
  then show ?case by (simp add: hex_value_def)
next
  case (Cons c cs)
  from Cons.prems [of c] obtain d where d: "hex_val c = Some d" by auto
  with hex_val_Some_not_special [OF d] Cons.IH [of "16 * acc + d" False] Cons.prems
  show ?case by (simp add: hex_value_def)
qed

lemma hex_value_hex_digits: "hex_value 0 (hex_digits n) = n"
proof (induction n rule: hex_digits.induct)
  case (1 n)
  show ?case
  proof (cases "n < 16")
    case True
    then show ?thesis
      by (subst hex_digits.simps) (simp add: hex_value_def hex_val_hex_char)
  next
    case False
    with "1.IH" show ?thesis
      by (subst hex_digits.simps) (simp add: hex_value_def hex_val_hex_char)
  qed
qed


lemma int16_hex_digits: "int16 (hex_digits n) = Some (int n)"
proof -
  obtain c cs where s: "hex_digits n = c # cs"
    using hex_digits_not_Nil [of n] by (cases "hex_digits n") auto
  have all: "\<And>x. x \<in> set (c # cs) \<Longrightarrow> \<exists>d. hex_val x = Some d"
    using hex_digits_chars [of _ n] by (simp add: s)
  from all [of c] obtain d where d: "hex_val c = Some d" by auto
  note nc = hex_val_Some_not_special [OF d]
  have no_prefix: "cs \<noteq> [] \<Longrightarrow> hd cs \<noteq> CHR ''x'' \<and> hd cs \<noteq> CHR ''X''"
  proof -
    assume "cs \<noteq> []"
    then obtain b r where cs: "cs = b # r" by (cases cs) auto
    from all [of b] obtain e where "hex_val b = Some e" by (auto simp: cs)
    from hex_val_Some_not_special [OF this] show ?thesis by (simp add: cs)
  qed
  have scan: "scan_hex 0 False (c # cs) = Some (n, [])"
    using scan_hex_all_digits [of "c # cs" 0 False] all hex_value_hex_digits [of n]
    by (simp add: s)
  show ?thesis
  proof (cases cs)
    case Nil
    with nc d scan show ?thesis
      by (simp add: int16_def s)
  next
    case (Cons b r)
    with no_prefix have "b \<noteq> CHR ''x'' \<and> b \<noteq> CHR ''X''" by simp
    with nc d scan Cons show ?thesis
      by (simp add: int16_def s)
  qed
qed

lemma bin_digits_not_Nil: "bin_digits n \<noteq> []"
  by (subst bin_digits.simps) simp

lemma bits_zero: "bits k 0 = replicate k False"
  by (induction k) (simp_all add: replicate_append_same)

lemma digit_char_bit: "m < 2 \<Longrightarrow> digit_char m = bit_char (odd m)"
proof -
  assume "m < 2"
  then have "m = 0 \<or> m = 1" by auto
  then show ?thesis
    by (auto simp: digit_char_def bit_char_def char_of_eq_iff)
qed

lemma pad_bin_digits:
  "n < 2 ^ k \<Longrightarrow> 0 < k \<Longrightarrow>
     length (bin_digits n) \<le> k
     \<and> replicate (k - length (bin_digits n)) CHR ''0'' @ bin_digits n = map bit_char (bits k n)"
proof (induction k arbitrary: n)
  case 0
  then show ?case by simp
next
  case (Suc k)
  show ?case
  proof (cases "n < 2")
    case True
    then have b: "bin_digits n = [bit_char (odd n)]"
      by (subst bin_digits.simps) (simp add: digit_char_bit)
    from True have "n div 2 = 0" by simp
    then show ?thesis
      by (simp add: b bits_zero bit_char_def)
  next
    case False
    then have b: "bin_digits n = bin_digits (n div 2) @ [bit_char (odd n)]"
      by (subst bin_digits.simps) (simp add: digit_char_bit odd_iff_mod_2_eq_one)
    from False Suc.prems have k: "0 < k"
      by (cases k) auto
    from Suc.prems have "n div 2 < 2 ^ k" by auto
    from Suc.IH [OF this k] show ?thesis
      by (simp add: b Suc_diff_le)
  qed
qed

lemma bin_digits_chars: "c \<in> set (bin_digits n) \<Longrightarrow> c = CHR ''0'' \<or> c = CHR ''1''"
proof (induction n arbitrary: c rule: bin_digits.induct)
  case (1 n)
  show ?case
  proof (cases "n < 2")
    case True
    with "1.prems" show ?thesis
      by (subst (asm) bin_digits.simps) (auto simp: digit_char_bit bit_char_def)
  next
    case False
    with "1.prems" have "c \<in> set (bin_digits (n div 2)) \<or> c = digit_char (n mod 2)"
      by (subst (asm) bin_digits.simps) auto
    then show ?thesis
      using "1.IH" [OF False] by (auto simp: digit_char_bit bit_char_def split: if_splits)
  qed
qed

lemma zfill_bin_digits:
  assumes "n < 2 ^ k" "0 < k"
  shows "zfill k (bin_digits n) = map bit_char (bits k n)"
proof -
  obtain c cs where s: "bin_digits n = c # cs"
    using bin_digits_not_Nil [of n] by (cases "bin_digits n") auto
  have "c = CHR ''0'' \<or> c = CHR ''1''"
    using bin_digits_chars [of c n] by (simp add: s)
  then have c: "c \<noteq> CHR ''+''" "c \<noteq> CHR ''-''" by auto
  from pad_bin_digits [OF assms] have
    len: "length (bin_digits n) \<le> k"
    and pad: "replicate (k - length (bin_digits n)) CHR ''0'' @ bin_digits n
              = map bit_char (bits k n)"
    by simp_all
  show ?thesis
  proof (cases "length (bin_digits n) \<ge> k")
    case True
    with len have "k - length (bin_digits n) = 0" by simp
    with pad True show ?thesis by (simp add: zfill_def)
  next
    case False
    with pad c show ?thesis by (simp add: zfill_def s)
  qed
qed

lemma bits_value_snoc: "bits_value (bs @ [b]) = 2 * bits_value bs + (if b then 1 else 0)"
  by (simp add: bits_value_def)

lemma bits_value_bound: "bits_value bs < 2 ^ length bs"
proof (induction bs rule: rev_induct)
  case Nil
  then show ?case by (simp add: bits_value_def)
next
  case (snoc b bs)
  then show ?case by (simp add: bits_value_snoc)
qed

lemma bits_bits_value: "bits (length bs) (bits_value bs) = bs"
proof (induction bs rule: rev_induct)
  case Nil
  then show ?case by simp
next
  case (snoc b bs)
  then show ?case by (simp add: bits_value_snoc)
qed

lemma length_bits: "length (bits k n) = k"
  by (induction k arbitrary: n) simp_all


lemma bit_char_inj: "bit_char x = bit_char y \<longleftrightarrow> x = y"
  by (auto simp: bit_char_def)

lemma hamming_bit_chars:
  "length (filter (\<lambda>(c1, c2). c1 \<noteq> c2) (zip (map bit_char xs) (map bit_char ys)))
     = hamming xs ys"
  unfolding hamming_def
  by (induction xs ys rule: list_induct2') (simp_all add: bit_char_inj)

lemma int16_hash_of_bits: "int16 (hash_of_bits p) = Some (int (bits_value p))"
  by (simp add: hash_of_bits_def int16_hex_digits)

lemma zfill_hash_bits:
  assumes "length p = 64"
  shows "zfill 64 (bin_tail (int (bits_value p))) = map bit_char p"
proof -
  have "bits_value p < 2 ^ 64"
    using bits_value_bound [of p] assms by simp
  from zfill_bin_digits [OF this] bits_bits_value [of p] assms show ?thesis
    by (simp add: bin_tail_def)
qed

lemma hash_similarity_64:
  assumes "length p = 64" "length q = 64"
  shows "hash_similarity (hash_of_bits p) (hash_of_bits q) = 1 - real (hamming p q) / 64"
  using assms
  by (simp add: hash_similarity_def int16_hash_of_bits zfill_hash_bits hamming_bit_chars)

lemma hash_of_bits_inj:
  assumes "length p = 64" "length q = 64" "hash_of_bits p = hash_of_bits q"
  shows "p = q"
proof -
  from assms(3) have "int16 (hash_of_bits p) = int16 (hash_of_bits q)" by simp
  then have "bits_value p = bits_value q" by (simp add: int16_hash_of_bits)
  then have "bits (length p) (bits_value p) = bits (length q) (bits_value q)"
    using assms by simp
  then show ?thesis by (simp add: bits_bits_value)
qed

lemma foldl_max_Max:
  fixes f :: "'a \<Rightarrow> real"
  shows "foldl (\<lambda>m s. max m (f s)) a xs = Max (insert a (f ` set xs))"
proof (induction xs arbitrary: a)
  case Nil
  then show ?case by simp
next
  case (Cons x xs)
  have "Max (insert (max a (f x)) (f ` set xs)) = Max (insert a (insert (f x) (f ` set xs)))"
    by (cases "xs = []") (simp_all add: max.assoc)
  with Cons show ?case by simp
qed

lemma hamming_le_length: "hamming xs ys \<le> length xs"
  unfolding hamming_def
  by (rule order_trans [OF length_filter_le]) simp

lemma Max_similarity:
  fixes f :: "'a \<Rightarrow> real"
  assumes "xs \<noteq> []" "\<And>x. x \<in> set xs \<Longrightarrow> 0 \<le> f x"
  shows "Max (insert 0 (f ` set xs)) = Max (f ` set xs)"
proof -
  have ne: "f ` set xs \<noteq> {}" using assms(1) by simp
  have "0 \<le> Max (f ` set xs)"
  proof -
    from assms(1) obtain x where x: "x \<in> set xs" by (cases xs) auto
    have "f x \<le> Max (f ` set xs)" using x by simp
    with assms(2) [OF x] show ?thesis by simp
  qed
  with ne show ?thesis by (simp add: max_def)
qed

lemma check_duplicate_member:
  "image_hash \<in> set image_hashes \<Longrightarrow> check_duplicate image_hashes image_hash t = (True, 100)"
  by (auto simp: check_duplicate_def)

text \<open>
  C4, as the code has it. For every hash and every stored set that contains it, the
  check returns (true, 100). For the hashes that the average hash produces from 64
  bits and a stored set of such hashes that is not empty, the check returns (true, 100)
  if the queried hash is stored; otherwise it returns as confidence 100 times the
  greatest similarity 1 - distance / 64 over the stored hashes, and reports a duplicate
  exactly when that similarity reaches the threshold. A stored hash that differs from
  the queried one in at most 3 of the 64 bits makes it a duplicate at the threshold 0.95.
\<close>

theorem check_duplicate_64_bit_hashes:
  assumes q: "length q = 64"
      and stored: "\<forall>bs \<in> set stored. length bs = 64"
      and nonempty: "stored \<noteq> []"
  shows "(image_hash \<in> set image_hashes
            \<longrightarrow> check_duplicate image_hashes image_hash threshold = (True, 100))
     \<and> check_duplicate (map hash_of_bits stored) (hash_of_bits q) threshold =
           (if q \<in> set stored then (True, 100)
            else let m = Max ((\<lambda>bs. 1 - real (hamming q bs) / 64) ` set stored)
                 in (m \<ge> threshold, m * 100))
     \<and> ((\<exists>bs \<in> set stored. hamming q bs \<le> 3)
          \<longrightarrow> fst (check_duplicate (map hash_of_bits stored) (hash_of_bits q) 0.95))"
proof -
  let ?sim = "\<lambda>bs. 1 - real (hamming q bs) / 64"
  have mem: "hash_of_bits q \<in> hash_of_bits ` set stored \<longleftrightarrow> q \<in> set stored"
    using hash_of_bits_inj [OF q] stored by auto
  have sim: "hash_similarity (hash_of_bits q) (hash_of_bits bs) = ?sim bs"
    if "bs \<in> set stored" for bs
    using hash_similarity_64 [OF q] stored that by simp
  have nonneg: "0 \<le> ?sim bs" for bs
    using hamming_le_length [of q bs] q by simp
  have "foldl (\<lambda>m s. max m (hash_similarity (hash_of_bits q) s)) 0 (map hash_of_bits stored)
          = Max (insert 0 ((\<lambda>s. hash_similarity (hash_of_bits q) s) ` set (map hash_of_bits stored)))"
    by (rule foldl_max_Max)
  also have "(\<lambda>s. hash_similarity (hash_of_bits q) s) ` set (map hash_of_bits stored)
               = ?sim ` set stored"
    using sim by (auto simp: image_iff)
  also have "Max (insert 0 (?sim ` set stored)) = Max (?sim ` set stored)"
    using Max_similarity [OF nonempty, of ?sim] nonneg by simp
  finally have loop:
    "foldl (\<lambda>m s. max m (hash_similarity (hash_of_bits q) s)) 0 (map hash_of_bits stored)
       = Max (?sim ` set stored)" .
  have general: "check_duplicate (map hash_of_bits stored) (hash_of_bits q) t =
           (if q \<in> set stored then (True, 100)
            else let m = Max (?sim ` set stored) in (m \<ge> t, m * 100))" for t
    using nonempty by (simp add: check_duplicate_def mem loop Let_def)
  have near: "fst (check_duplicate (map hash_of_bits stored) (hash_of_bits q) 0.95)"
    if "\<exists>bs \<in> set stored. hamming q bs \<le> 3"
  proof -
    from that obtain bs where bs: "bs \<in> set stored" "hamming q bs \<le> 3" by auto
    then have "0.95 \<le> ?sim bs" by simp
    also have "?sim bs \<le> Max (?sim ` set stored)" using bs(1) by simp
    finally show ?thesis by (simp add: general Let_def)
  qed
  from general [of threshold] near check_duplicate_member [of image_hash image_hashes threshold]
  show ?thesis by blast
qed

lemma hash_all_ones: "hash_of_bits bits_all_ones = ''ffffffffffffffff''"
  by (simp add: hash_of_bits_def bits_value_def bits_all_ones_def replicate_numeral hex_eval)

lemma hash_three_off: "hash_of_bits bits_three_off = ''fffffffffffffff8''"
  by (simp add: hash_of_bits_def bits_value_def bits_three_off_def replicate_numeral hex_eval)

lemma hash_four_off: "hash_of_bits bits_four_off = ''fffffffffffffff0''"
  by (simp add: hash_of_bits_def bits_value_def bits_four_off_def replicate_numeral hex_eval)

lemma example_lengths:
  "length bits_all_ones = 64" "length bits_three_off = 64" "length bits_four_off = 64"
  by (simp_all add: bits_all_ones_def bits_three_off_def bits_four_off_def)

lemma example_distances:
  "hamming bits_all_ones bits_three_off = 3" "hamming bits_all_ones bits_four_off = 4"
  "hamming digest_bits_a digest_bits_b = 4"
  by (simp_all add: hamming_def bits_all_ones_def bits_three_off_def bits_four_off_def
        digest_bits_a_def digest_bits_b_def replicate_numeral)

theorem check_duplicate_64_bit_hashes_witness:
  "check_duplicate [''fffffffffffffff8''] ''ffffffffffffffff'' 0.95 = (True, 95.3125)
   \<and> check_duplicate [''fffffffffffffff0''] ''ffffffffffffffff'' 0.95 = (False, 93.75)
   \<and> check_duplicate [''ffffffffffffffff''] ''ffffffffffffffff'' 0.95 = (True, 100)"
  using check_duplicate_64_bit_hashes
          [where q = bits_all_ones and stored = "[bits_three_off]" and threshold = "0.95"]
    check_duplicate_64_bit_hashes
          [where q = bits_all_ones and stored = "[bits_four_off]" and threshold = "0.95"]
    check_duplicate_64_bit_hashes
          [where q = bits_all_ones and stored = "[bits_all_ones]" and threshold = "0.95"]
    hash_all_ones hash_three_off hash_four_off example_lengths example_distances
  by (auto simp: Let_def)

lemma digest_values:
  "int16 ''ffffffffffffffffffffffffffffffff'' = Some (int (bits_value digest_bits_a))"
  "int16 ''fffffffffffffffffffffffffffffff0'' = Some (int (bits_value digest_bits_b))"
  by (simp_all add: int16_def int_space_def hex_val_def bits_value_def digest_bits_a_def
        digest_bits_b_def replicate_numeral)

lemma digest_similarity:
  "hash_similarity ''ffffffffffffffffffffffffffffffff'' ''fffffffffffffffffffffffffffffff0''
     = 0.96875"
  by (simp add: hash_similarity_def digest_values bits_value_def digest_bits_a_def
        digest_bits_b_def replicate_numeral bin_tail_def bin_digits.simps digit_char_simps [simplified]
        digit_char_def char_of_eq_iff zfill_def)

text \<open>
  C4, as the claim has it, fails for hashes that are longer than 64 bits, such as the
  digests of 32 hexadecimal digits that \<^verbatim>\<open>_compute_image_hash\<close> falls back to. The
  similarity is normalised by the length of the binary expansion of the queried hash:
  two digests that differ in 4 bits have similarity 1 - 4 / 128 and are reported as
  duplicates with confidence 96.875, where 1 - 4 / 64 is below the threshold.
\<close>

theorem check_duplicate_counterexample:
  "check_duplicate [''fffffffffffffffffffffffffffffff0''] ''ffffffffffffffffffffffffffffffff''
       0.95 = (True, 96.875)
   \<and> int16 ''ffffffffffffffffffffffffffffffff'' = Some (int (bits_value digest_bits_a))
   \<and> int16 ''fffffffffffffffffffffffffffffff0'' = Some (int (bits_value digest_bits_b))
   \<and> hamming digest_bits_a digest_bits_b = 4
   \<and> \<not> (0.95 \<le> 1 - real (hamming digest_bits_a digest_bits_b) / 64)"
  using digest_values digest_similarity example_distances
  by (simp add: check_duplicate_def)

subsection \<open>Verifying an image twice\<close>

text \<open>
  C5. When \<^verbatim>\<open>verify\<close> returns a result that is not a duplicate, the hash of the image
  is in the stored set afterwards; verifying the same image again, with that set or a
  larger one, returns the same result except that it is a duplicate with confidence
  100.0, and leaves the set as it is.
\<close>

theorem verify_twice_is_duplicate:
  assumes first: "verify env image_hashes image_path crop_type = (Inr r1, image_hashes1)"
      and fresh: "\<not> ir_is_duplicate r1"
  shows "ir_image_hash r1 \<in> set image_hashes1
     \<and> (\<forall>image_hashes2 crop_type2.
           set image_hashes1 \<subseteq> set image_hashes2 \<longrightarrow>
           verify env image_hashes2 image_path crop_type2
             = (Inr (r1\<lparr>ir_is_duplicate := True, ir_duplicate_confidence := 100.0\<rparr>),
                image_hashes2))"
proof -
  from first obtain img d h where
      ex: "path_exists env image_path"
      and pre: "preprocess_image env image_path = Inr img"
      and cl: "classifier_predict env img = Inr d"
      and ha: "compute_image_hash (load_grey8x8 env) (md5_hexdigest env) image_path = Inr h"
    by (auto simp: verify_def Let_def split: if_splits sum.splits)
  obtain dup conf where cd: "check_duplicate image_hashes h 0.95 = (dup, conf)"
    by (cases "check_duplicate image_hashes h 0.95")
  from first ex pre cl ha cd have r1: "r1 = \<lparr>ir_damage_confidence = round2 (d * 100),
        ir_is_duplicate = dup, ir_duplicate_confidence = round2 conf, ir_image_hash = h\<rparr>"
    and st: "image_hashes1 = (if \<not> dup then List.insert h image_hashes else image_hashes)"
    by (auto simp: verify_def Let_def)
  from fresh r1 have nd: "\<not> dup" by simp
  with st have mem: "h \<in> set image_hashes1" by simp
  have again: "verify env image_hashes2 image_path crop_type2
         = (Inr (r1\<lparr>ir_is_duplicate := True, ir_duplicate_confidence := 100.0\<rparr>),
            image_hashes2)"
    if sub: "set image_hashes1 \<subseteq> set image_hashes2" for image_hashes2 crop_type2
  proof -
    from mem sub have "h \<in> set image_hashes2" by auto
    from check_duplicate_member [OF this, of "0.95"] ex pre cl ha r1 show ?thesis
      by (simp add: verify_def Let_def round2_examples)
  qed
  from mem r1 again show ?thesis by simp
qed

theorem verify_twice_is_duplicate_witness:
  "verify example_env [] ''field.jpg'' (Some ''rice'')
     = (Inr \<lparr>ir_damage_confidence = 80, ir_is_duplicate = False,
               ir_duplicate_confidence = 0, ir_image_hash = ''ffffffff''\<rparr>, [''ffffffff''])
   \<and> verify example_env [''ffffffff''] ''field.jpg'' (Some ''rice'')
     = (Inr \<lparr>ir_damage_confidence = 80, ir_is_duplicate = True,
               ir_duplicate_confidence = 100, ir_image_hash = ''ffffffff''\<rparr>, [''ffffffff''])"
  using verify_example verify_twice_is_duplicate [OF verify_example]
  by simp

end
